theory Spec2Isabelle
  imports Main
begin

section \<open>Solidity values, failures and checked arithmetic\<close>

text \<open>
  The contracts are compiled with \<^verbatim>\<open>pragma solidity ^0.8.20\<close>: every \<^verbatim>\<open>uint256\<close>
  operation outside an \<^verbatim>\<open>unchecked\<close> block reverts with \<^verbatim>\<open>Panic(0x11)\<close> on overflow or
  underflow, and a division by zero reverts with \<^verbatim>\<open>Panic(0x12)\<close>. Values are modelled as
  natural numbers with these checks written out. An address is a number and
  \<^verbatim>\<open>address(0)\<close> is \<open>0\<close>.
\<close>

type_synonym address = nat

definition UINT256_MAX :: nat where
  "UINT256_MAX = 2 ^ 256 - 1"

datatype error =
    Revert string
  | Panic nat
  | CustomError string
  | InsufficientFunds

definition bnd :: "error + 'a \<Rightarrow> ('a \<Rightarrow> error + 'b) \<Rightarrow> error + 'b" where
  "bnd m f = (case m of Inl e \<Rightarrow> Inl e | Inr x \<Rightarrow> f x)"

definition require :: "bool \<Rightarrow> string \<Rightarrow> error + unit" where
  "require c msg = (if c then Inr () else Inl (Revert msg))"

definition checked_add :: "nat \<Rightarrow> nat \<Rightarrow> error + nat" where
  "checked_add a b = (if a + b \<le> UINT256_MAX then Inr (a + b) else Inl (Panic 17))"

definition checked_sub :: "nat \<Rightarrow> nat \<Rightarrow> error + nat" where
  "checked_sub a b = (if b \<le> a then Inr (a - b) else Inl (Panic 17))"

definition checked_mul :: "nat \<Rightarrow> nat \<Rightarrow> error + nat" where
  "checked_mul a b = (if a * b \<le> UINT256_MAX then Inr (a * b) else Inl (Panic 17))"

definition checked_div :: "nat \<Rightarrow> nat \<Rightarrow> error + nat" where
  "checked_div a b = (if b = 0 then Inl (Panic 18) else Inr (a div b))"

text \<open>Inside an \<^verbatim>\<open>unchecked\<close> block the same operations wrap modulo \<open>2 ^ 256\<close>.\<close>

definition unchecked_add :: "nat \<Rightarrow> nat \<Rightarrow> nat" where
  "unchecked_add a b = (a + b) mod 2 ^ 256"

definition unchecked_sub :: "nat \<Rightarrow> nat \<Rightarrow> nat" where
  "unchecked_sub a b = (a + 2 ^ 256 - b mod 2 ^ 256) mod 2 ^ 256"

section \<open>Events and storage\<close>

datatype event =
    Transfer address address nat
  | Approval address address nat
  | TokensMinted address nat
  | TokensBurned address nat
  | MilestonesReached
  | DeployerTokensVested nat
  | UnvestedTokensBurned nat
  | Bought address nat nat nat
  | Sold address nat nat nat
  | Graduated nat nat
  | TokenCreated address string string address
  | BondingCurveCreated address address

text \<open>
  Storage of \<^verbatim>\<open>ERC20Token\<close> (TokenFactory.sol), including the three storage variables it
  inherits from OpenZeppelin's \<^verbatim>\<open>ERC20\<close>: \<^verbatim>\<open>_balances\<close>, \<^verbatim>\<open>_allowances\<close>, \<^verbatim>\<open>_totalSupply\<close>.
\<close>

record ERC20Token =
  tokenName :: string
  tokenSymbol :: string
  balances :: "address \<Rightarrow> nat"
  allowances :: "address \<Rightarrow> address \<Rightarrow> nat"
  totalSupply :: nat
  owner :: address
  deployer :: address
  vestingStartTime :: nat
  vestedAmount :: nat
  milestonesReached :: bool

text \<open>Storage and immutables of \<^verbatim>\<open>BondingCurve\<close>.\<close>

record BondingCurve =
  token :: address
  MAX_SUPPLY :: nat
  deployer :: address
  platform :: address
  factory :: address
  totalEthInvested :: nat
  hasGraduated :: bool
  platformFeesCollected :: nat
  liquidityAdded :: bool

text \<open>
  One token/curve pair together with what the chain keeps around it: the address of the
  curve contract (\<^verbatim>\<open>address(this)\<close> inside \<^verbatim>\<open>BondingCurve\<close>), the ether balance of every
  account, which accounts refuse a plain ether transfer, and the log of emitted events.
  The log is not contract storage.
\<close>

record world =
  tok :: ERC20Token
  crv :: BondingCurve
  curveAddr :: address
  ethBalance :: "address \<Rightarrow> nat"
  rejectsEth :: "address \<Rightarrow> bool"
  events :: "event list"

definition emit :: "world \<Rightarrow> event \<Rightarrow> world" where
  "emit w e = w\<lparr>events := events w @ [e]\<rparr>"

section \<open>The ERC20 base contract\<close>

text \<open>
  \<^verbatim>\<open>ERC20Token is ERC20\<close>: the functions below follow OpenZeppelin Contracts 5.x
  (\<^verbatim>\<open>_update\<close>, \<^verbatim>\<open>_mint\<close>, \<^verbatim>\<open>_burn\<close>, \<^verbatim>\<open>_transfer\<close>, \<^verbatim>\<open>_approve\<close>, \<^verbatim>\<open>_spendAllowance\<close>,
  \<^verbatim>\<open>transfer\<close>, \<^verbatim>\<open>approve\<close>, \<^verbatim>\<open>transferFrom\<close>), the release line that requires
  Solidity 0.8.20. In \<^verbatim>\<open>_update\<close> the total supply is increased with a checked addition;
  the credit to the receiver and the decrease of the total supply are \<^verbatim>\<open>unchecked\<close>, and the
  debit of the sender is guarded by the balance test.
\<close>

definition ERC20_update :: "world \<Rightarrow> address \<Rightarrow> address \<Rightarrow> nat \<Rightarrow> error + world" where
  "ERC20_update w from to val =
     bnd (if from = 0
          then bnd (checked_add (totalSupply (tok w)) val)
                 (\<lambda>ts. Inr ((tok w)\<lparr>totalSupply := ts\<rparr>))
          else if balances (tok w) from < val
          then Inl (CustomError ''ERC20InsufficientBalance'')
          else Inr ((tok w)\<lparr>balances := (balances (tok w))(from := balances (tok w) from - val)\<rparr>))
       (\<lambda>t1.
          let t2 = (if to = 0
                    then t1\<lparr>totalSupply := unchecked_sub (totalSupply t1) val\<rparr>
                    else t1\<lparr>balances := (balances t1)(to := unchecked_add (balances t1 to) val)\<rparr>)
          in Inr (emit (w\<lparr>tok := t2\<rparr>) (Transfer from to val)))"

definition ERC20_mint :: "world \<Rightarrow> address \<Rightarrow> nat \<Rightarrow> error + world" where
  "ERC20_mint w account val =
     (if account = 0 then Inl (CustomError ''ERC20InvalidReceiver'')
      else ERC20_update w 0 account val)"

definition ERC20_burn :: "world \<Rightarrow> address \<Rightarrow> nat \<Rightarrow> error + world" where
  "ERC20_burn w account val =
     (if account = 0 then Inl (CustomError ''ERC20InvalidSender'')
      else ERC20_update w account 0 val)"

definition ERC20_transfer :: "world \<Rightarrow> address \<Rightarrow> address \<Rightarrow> nat \<Rightarrow> error + world" where
  "ERC20_transfer w from to val =
     (if from = 0 then Inl (CustomError ''ERC20InvalidSender'')
      else if to = 0 then Inl (CustomError ''ERC20InvalidReceiver'')
      else ERC20_update w from to val)"

definition ERC20_approve :: "world \<Rightarrow> address \<Rightarrow> address \<Rightarrow> nat \<Rightarrow> bool \<Rightarrow> error + world" where
  "ERC20_approve w own spender val emitEvent =
     (if own = 0 then Inl (CustomError ''ERC20InvalidApprover'')
      else if spender = 0 then Inl (CustomError ''ERC20InvalidSpender'')
      else
        let w1 = w\<lparr>tok := (tok w)\<lparr>allowances :=
                   (allowances (tok w))(own := (allowances (tok w) own)(spender := val))\<rparr>\<rparr>
        in Inr (if emitEvent then emit w1 (Approval own spender val) else w1))"

definition ERC20_spendAllowance :: "world \<Rightarrow> address \<Rightarrow> address \<Rightarrow> nat \<Rightarrow> error + world" where
  "ERC20_spendAllowance w own spender val =
     (let currentAllowance = allowances (tok w) own spender in
      if currentAllowance < UINT256_MAX
      then if currentAllowance < val
           then Inl (CustomError ''ERC20InsufficientAllowance'')
           else ERC20_approve w own spender (unchecked_sub currentAllowance val) False
      else Inr w)"

text \<open>The external functions take \<^verbatim>\<open>msg.sender\<close> as their second argument.\<close>

definition transfer :: "world \<Rightarrow> address \<Rightarrow> address \<Rightarrow> nat \<Rightarrow> error + world" where
  "transfer w sender to val = ERC20_transfer w sender to val"

definition approve :: "world \<Rightarrow> address \<Rightarrow> address \<Rightarrow> nat \<Rightarrow> error + world" where
  "approve w sender spender val = ERC20_approve w sender spender val True"

definition transferFrom :: "world \<Rightarrow> address \<Rightarrow> address \<Rightarrow> address \<Rightarrow> nat \<Rightarrow> error + world" where
  "transferFrom w sender from to val =
     bnd (ERC20_spendAllowance w from sender val) (\<lambda>w1. ERC20_transfer w1 from to val)"

section \<open>ERC20Token\<close>

definition TOTAL_SUPPLY :: nat where
  "TOTAL_SUPPLY = 1000000000 * 10 ^ 18"

definition DEPLOYER_ALLOCATION_PERCENT :: nat where
  "DEPLOYER_ALLOCATION_PERCENT = 2"

definition DEPLOYER_ALLOCATION :: nat where
  "DEPLOYER_ALLOCATION = (TOTAL_SUPPLY * DEPLOYER_ALLOCATION_PERCENT) div 100"

definition VESTING_DURATION :: nat where
  "VESTING_DURATION = 180 * 86400"

definition ERC20Token_constructor ::
  "string \<Rightarrow> string \<Rightarrow> address \<Rightarrow> address \<Rightarrow> nat \<Rightarrow> error + ERC20Token" where
  "ERC20Token_constructor tName tSymbol own dep timestamp =
     bnd (require (own \<noteq> 0) ''Owner zero address'') (\<lambda>_.
     bnd (require (dep \<noteq> 0) ''Deployer zero address'') (\<lambda>_.
     Inr \<lparr>tokenName = tName, tokenSymbol = tSymbol, balances = (\<lambda>_. 0), allowances = (\<lambda>_ _. 0),
          totalSupply = 0, owner = own, deployer = dep, vestingStartTime = timestamp,
          vestedAmount = 0, milestonesReached = False\<rparr>))"

definition mint :: "world \<Rightarrow> address \<Rightarrow> address \<Rightarrow> nat \<Rightarrow> error + world" where
  "mint w sender to amount =
     bnd (require (sender = owner (tok w)) ''Only owner'') (\<lambda>_.
     bnd (ERC20_mint w to amount) (\<lambda>w1.
     Inr (emit w1 (TokensMinted to amount))))"

definition burn :: "world \<Rightarrow> address \<Rightarrow> nat \<Rightarrow> error + world" where
  "burn w sender amount =
     bnd (ERC20_burn w sender amount) (\<lambda>w1.
     Inr (emit w1 (TokensBurned sender amount)))"

definition transferOwnership :: "world \<Rightarrow> address \<Rightarrow> address \<Rightarrow> error + world" where
  "transferOwnership w sender newOwner =
     bnd (require (sender = owner (tok w)) ''Only owner'') (\<lambda>_.
     bnd (require (newOwner \<noteq> 0) ''Zero address'') (\<lambda>_.
     Inr (w\<lparr>tok := (tok w)\<lparr>owner := newOwner\<rparr>\<rparr>)))"

text \<open>\<^verbatim>\<open>calculateVestedAmount\<close> is a view; \<open>now\<close> is \<^verbatim>\<open>block.timestamp\<close>.\<close>

definition calculateVestedAmount :: "ERC20Token \<Rightarrow> nat \<Rightarrow> error + nat" where
  "calculateVestedAmount t now =
     bnd (checked_add (vestingStartTime t) VESTING_DURATION) (\<lambda>vestingEnd.
     if now \<ge> vestingEnd
     then Inr (if milestonesReached t then DEPLOYER_ALLOCATION else 0)
     else
       bnd (checked_sub now (vestingStartTime t)) (\<lambda>timeElapsed.
       bnd (checked_mul DEPLOYER_ALLOCATION timeElapsed) (\<lambda>p.
       Inr (p div VESTING_DURATION))))"

definition claimVestedTokens :: "world \<Rightarrow> address \<Rightarrow> nat \<Rightarrow> error + world" where
  "claimVestedTokens w sender now =
     bnd (require (sender = ERC20Token.deployer (tok w)) ''Only deployer'') (\<lambda>_.
     bnd (calculateVestedAmount (tok w) now) (\<lambda>newlyVested.
     if newlyVested > vestedAmount (tok w)
     then
       bnd (checked_sub newlyVested (vestedAmount (tok w))) (\<lambda>amountToVest.
       let w1 = w\<lparr>tok := (tok w)\<lparr>vestedAmount := newlyVested\<rparr>\<rparr> in
       bnd (ERC20_mint w1 (ERC20Token.deployer (tok w1)) amountToVest) (\<lambda>w2.
       Inr (emit w2 (DeployerTokensVested amountToVest))))
     else Inr w))"

definition setMilestonesReached :: "world \<Rightarrow> address \<Rightarrow> error + world" where
  "setMilestonesReached w sender =
     bnd (require (sender = owner (tok w)) ''Only owner'') (\<lambda>_.
     Inr (emit (w\<lparr>tok := (tok w)\<lparr>milestonesReached := True\<rparr>\<rparr>) MilestonesReached))"

definition burnUnvestedTokens :: "world \<Rightarrow> address \<Rightarrow> nat \<Rightarrow> error + world" where
  "burnUnvestedTokens w sender now =
     bnd (require (sender = owner (tok w) \<or> sender = ERC20Token.deployer (tok w)) ''Unauthorized'') (\<lambda>_.
     bnd (checked_add (vestingStartTime (tok w)) VESTING_DURATION) (\<lambda>vestingEnd.
     bnd (require (now > vestingEnd) ''Vesting ongoing'') (\<lambda>_.
     bnd (require (\<not> milestonesReached (tok w)) ''Milestones reached'') (\<lambda>_.
     bnd (checked_sub DEPLOYER_ALLOCATION (vestedAmount (tok w))) (\<lambda>unvestedAmount.
     Inr (emit w (UnvestedTokensBurned unvestedAmount)))))))"

text \<open>
  Modelled from the spec: \<^verbatim>\<open>burnFrom(address, uint256)\<close>, which
  \<^verbatim>\<open>BondingCurve._executeGraduation\<close> calls on the token, is missing from the
  \<^verbatim>\<open>ERC20Token\<close> of TokenFactory.sol (and OpenZeppelin's \<^verbatim>\<open>ERC20\<close> has no such function).
  The spec says of this call: "burn \<^verbatim>\<open>BURN_PERCENTAGE\<close> (10%) of current circulating supply
  from the engine's own holdings (not from arbitrary holders)". It is modelled as the ERC20
  burn of \<open>amount\<close> from the holdings of \<open>account\<close>, which fails when the holdings are smaller.
\<close>

definition burnFrom :: "world \<Rightarrow> address \<Rightarrow> address \<Rightarrow> nat \<Rightarrow> error + world" where
  "burnFrom w sender account amount = ERC20_burn w account amount"

section \<open>Ether\<close>

text \<open>
  Ether attached to a call (\<^verbatim>\<open>msg.value\<close>) is credited to the callee before its body runs;
  an account cannot attach more than it has. A low-level \<^verbatim>\<open>call{value: v}("")\<close> returns
  \<^verbatim>\<open>false\<close> when the sender's balance is too small or the receiver refuses the payment;
  \<open>call_value\<close> returns this flag together with the world after the call.
  Receivers are modelled as accepting or refusing only: they do not call back into the
  contracts.
\<close>

definition move_eth :: "world \<Rightarrow> address \<Rightarrow> address \<Rightarrow> nat \<Rightarrow> world" where
  "move_eth w src dst v =
     (let b1 = (ethBalance w)(src := ethBalance w src - v)
      in w\<lparr>ethBalance := b1(dst := b1 dst + v)\<rparr>)"

definition msg_value :: "world \<Rightarrow> address \<Rightarrow> address \<Rightarrow> nat \<Rightarrow> error + world" where
  "msg_value w sender callee v =
     (if ethBalance w sender < v then Inl InsufficientFunds else Inr (move_eth w sender callee v))"

definition call_value :: "world \<Rightarrow> address \<Rightarrow> address \<Rightarrow> nat \<Rightarrow> bool \<times> world" where
  "call_value w src dst v =
     (if ethBalance w src < v \<or> rejectsEth w dst then (False, w)
      else (True, move_eth w src dst v))"

section \<open>BondingCurve\<close>

definition ether :: nat where
  "ether = 10 ^ 18"

definition BASE_PRICE :: nat where
  "BASE_PRICE = 10 ^ 14"

definition PRICE_INCREASE :: nat where
  "PRICE_INCREASE = 10 ^ 10"

definition PLATFORM_FEE :: nat where
  "PLATFORM_FEE = 75"

definition DEPLOYER_FEE :: nat where
  "DEPLOYER_FEE = 0"

definition FEE_DENOMINATOR :: nat where
  "FEE_DENOMINATOR = 10000"

definition GRADUATION_THRESHOLD :: nat where
  "GRADUATION_THRESHOLD = 100 * ether"

definition BURN_PERCENTAGE :: nat where
  "BURN_PERCENTAGE = 1000"

definition MIN_BUY :: nat where
  "MIN_BUY = 5 * 10 ^ 16"

text \<open>The constructor runs with \<^verbatim>\<open>msg.sender\<close> \<open>sender\<close>; \<open>supply\<close> is \<^verbatim>\<open>token.totalSupply()\<close>.\<close>

definition BondingCurve_constructor ::
  "address \<Rightarrow> address \<Rightarrow> address \<Rightarrow> address \<Rightarrow> nat \<Rightarrow> error + BondingCurve" where
  "BondingCurve_constructor sender tkn dep plat supply =
     bnd (require (tkn \<noteq> 0) ''Token zero address'') (\<lambda>_.
     bnd (require (dep \<noteq> 0) ''Deployer zero address'') (\<lambda>_.
     bnd (require (plat \<noteq> 0) ''Platform zero address'') (\<lambda>_.
     Inr \<lparr>token = tkn, MAX_SUPPLY = supply, deployer = dep, platform = plat, factory = sender,
          totalEthInvested = 0, hasGraduated = False, platformFeesCollected = 0,
          liquidityAdded = False\<rparr>)))"

definition getCurrentPrice :: "world \<Rightarrow> error + nat" where
  "getCurrentPrice w =
     (if totalSupply (tok w) = 0 then Inr BASE_PRICE
      else bnd (checked_mul (totalEthInvested (crv w)) (10 ^ 18)) (\<lambda>p.
           checked_div p (totalSupply (tok w))))"

definition getMarketCap :: "world \<Rightarrow> nat" where
  "getMarketCap w = totalEthInvested (crv w)"

definition calculateBuyReturn :: "world \<Rightarrow> nat \<Rightarrow> error + nat" where
  "calculateBuyReturn w ethIn =
     bnd (getCurrentPrice w) (\<lambda>price.
     bnd (checked_mul ethIn (10 ^ 18)) (\<lambda>p.
     checked_div p price))"

definition calculateSellReturn :: "world \<Rightarrow> nat \<Rightarrow> error + nat" where
  "calculateSellReturn w tokensIn =
     bnd (getCurrentPrice w) (\<lambda>price.
     bnd (checked_mul tokensIn price) (\<lambda>p.
     Inr (p div 10 ^ 18)))"

definition calculateFees :: "world \<Rightarrow> nat \<Rightarrow> error + (nat \<times> nat \<times> nat)" where
  "calculateFees w amount =
     (if hasGraduated (crv w) then Inr (amount, 0, 0)
      else
        bnd (checked_mul amount PLATFORM_FEE) (\<lambda>pf.
        let platformFee = pf div FEE_DENOMINATOR in
        bnd (checked_mul amount DEPLOYER_FEE) (\<lambda>df.
        let deployerFee = df div FEE_DENOMINATOR in
        bnd (checked_sub amount platformFee) (\<lambda>a1.
        bnd (checked_sub a1 deployerFee) (\<lambda>netAmount.
        Inr (netAmount, platformFee, deployerFee))))))"

definition checkGraduation :: "world \<Rightarrow> bool" where
  "checkGraduation w =
     (if \<not> hasGraduated (crv w)
      then let marketCap = getMarketCap w in marketCap \<ge> GRADUATION_THRESHOLD
      else False)"

definition executeGraduation :: "world \<Rightarrow> error + world" where
  "executeGraduation w =
     (let w1 = w\<lparr>crv := (crv w)\<lparr>hasGraduated := True\<rparr>\<rparr>;
          currentSupply = totalSupply (tok w1)
      in
      bnd (checked_mul currentSupply BURN_PERCENTAGE) (\<lambda>p.
      let burnAmount = p div FEE_DENOMINATOR in
      bnd (if burnAmount > 0 then burnFrom w1 (curveAddr w1) (curveAddr w1) burnAmount else Inr w1) (\<lambda>w2.
      let w3 = w2\<lparr>crv := (crv w2)\<lparr>liquidityAdded := True\<rparr>\<rparr> in
      Inr (emit w3 (Graduated (getMarketCap w3) (ethBalance w3 (curveAddr w3)))))))"

definition buy :: "world \<Rightarrow> address \<Rightarrow> nat \<Rightarrow> error + world" where
  "buy w sender val =
     bnd (msg_value w sender (curveAddr w) val) (\<lambda>w0.
     bnd (require (val \<ge> MIN_BUY) ''Buy amount too small'') (\<lambda>_.
     bnd (require (\<not> hasGraduated (crv w0)) ''Curve has graduated'') (\<lambda>_.
     bnd (calculateFees w0 val) (\<lambda>(ethForTokens, platformFee, deployerFee).
     bnd (calculateBuyReturn w0 ethForTokens) (\<lambda>tokensBought.
     bnd (require (tokensBought > 0) ''Insufficient ETH'') (\<lambda>_.
     bnd (checked_add (platformFeesCollected (crv w0)) platformFee) (\<lambda>fees.
     bnd (mint (w0\<lparr>crv := (crv w0)\<lparr>platformFeesCollected := fees\<rparr>\<rparr>) (curveAddr w0) sender tokensBought) (\<lambda>w2.
     bnd (checked_add (totalEthInvested (crv w2)) ethForTokens) (\<lambda>invested.
     let w3 = w2\<lparr>crv := (crv w2)\<lparr>totalEthInvested := invested\<rparr>\<rparr> in
     bnd (if checkGraduation w3 then executeGraduation w3 else Inr w3) (\<lambda>w4.
     Inr (emit w4 (Bought sender val tokensBought platformFee))))))))))))"

definition sell :: "world \<Rightarrow> address \<Rightarrow> nat \<Rightarrow> error + world" where
  "sell w sender tokenAmount =
     bnd (require (tokenAmount > 0) ''Amount must be > 0'') (\<lambda>_.
     bnd (require (\<not> hasGraduated (crv w)) ''Curve has graduated'') (\<lambda>_.
     bnd (transferFrom w (curveAddr w) sender (curveAddr w) tokenAmount) (\<lambda>w1.
     bnd (calculateSellReturn w1 tokenAmount) (\<lambda>ethReturned.
     bnd (calculateFees w1 ethReturned) (\<lambda>(netEthReturned, platformFee, deployerFee).
     bnd (require (ethBalance w1 (curveAddr w1) \<ge> netEthReturned) ''Insufficient ETH'') (\<lambda>_.
     bnd (checked_add (platformFeesCollected (crv w1)) platformFee) (\<lambda>fees.
     bnd (burn (w1\<lparr>crv := (crv w1)\<lparr>platformFeesCollected := fees\<rparr>\<rparr>) (curveAddr w1) tokenAmount) (\<lambda>w2.
     let w3 = (if totalEthInvested (crv w2) > netEthReturned
               then w2\<lparr>crv := (crv w2)\<lparr>totalEthInvested := totalEthInvested (crv w2) - netEthReturned\<rparr>\<rparr>
               else w2\<lparr>crv := (crv w2)\<lparr>totalEthInvested := 0\<rparr>\<rparr>) in
     let sent = call_value w3 (curveAddr w3) sender netEthReturned in
     bnd (require (fst sent) ''ETH transfer failed'') (\<lambda>_.
     Inr (emit (snd sent) (Sold sender netEthReturned tokenAmount platformFee)))))))))))"

definition withdrawPlatformFees :: "world \<Rightarrow> address \<Rightarrow> error + world" where
  "withdrawPlatformFees w sender =
     bnd (require (sender = platform (crv w)) ''Unauthorized'') (\<lambda>_.
     let amount = platformFeesCollected (crv w) in
     bnd (require (amount > 0) ''No fees available'') (\<lambda>_.
     let w1 = w\<lparr>crv := (crv w)\<lparr>platformFeesCollected := 0\<rparr>\<rparr> in
     let sent = call_value w1 (curveAddr w1) (platform (crv w1)) amount in
     bnd (require (fst sent) ''Transfer failed'') (\<lambda>_. Inr (snd sent))))"

definition initialize :: "world \<Rightarrow> address \<Rightarrow> nat \<Rightarrow> error + world" where
  "initialize w sender val =
     bnd (msg_value w sender (curveAddr w) val) (\<lambda>w0.
     bnd (require (sender = BondingCurve.deployer (crv w0) \<or> sender = factory (crv w0)) ''UNAUTHORIZED'') (\<lambda>_.
     bnd (require (totalSupply (tok w0) = 0) ''Already initialized'') (\<lambda>_.
     Inr w0)))"

section \<open>TokenFactory\<close>

definition TOKEN_CREATION_FEE :: nat where
  "TOKEN_CREATION_FEE = 3 * 10 ^ 15"

text \<open>
  The factory has one immutable, \<^verbatim>\<open>platform\<close>. What \<^verbatim>\<open>createToken\<close> needs from the chain:
  the factory's own address, the ether balances, the refusing accounts,
  \<^verbatim>\<open>block.timestamp\<close>, and the addresses at which the two \<^verbatim>\<open>new\<close> expressions deploy.
\<close>

record TokenFactory =
  factoryAddr :: address
  platform :: address

record chain =
  ethBalances :: "address \<Rightarrow> nat"
  rejecting :: "address \<Rightarrow> bool"
  timestamp :: nat
  newTokenAddr :: address
  newCurveAddr :: address

text \<open>The constructor of the factory deployed at \<open>this\<close>.\<close>

definition TokenFactory_constructor :: "address \<Rightarrow> address \<Rightarrow> error + TokenFactory" where
  "TokenFactory_constructor this plat =
     bnd (require (plat \<noteq> 0) ''Platform zero address'') (\<lambda>_.
     Inr \<lparr>factoryAddr = this, platform = plat\<rparr>)"

definition createToken ::
  "TokenFactory \<Rightarrow> chain \<Rightarrow> address \<Rightarrow> nat \<Rightarrow> string \<Rightarrow> string \<Rightarrow> error + world" where
  "createToken f ch sender val tName tSymbol =
     (if ethBalances ch sender < val then Inl InsufficientFunds
      else
        bnd (require (val \<ge> TOKEN_CREATION_FEE) ''Insufficient fee'') (\<lambda>_.
        bnd (ERC20Token_constructor tName tSymbol (factoryAddr f) sender (timestamp ch)) (\<lambda>newToken.
        bnd (BondingCurve_constructor (factoryAddr f) (newTokenAddr ch) sender
               (TokenFactory.platform f) (totalSupply newToken)) (\<lambda>bondingCurve.
        let w = move_eth
                  \<lparr>tok = newToken, crv = bondingCurve, curveAddr = newCurveAddr ch,
                   ethBalance = ethBalances ch, rejectsEth = rejecting ch,
                   events = [TokenCreated (newTokenAddr ch) tName tSymbol sender,
                             BondingCurveCreated (newCurveAddr ch) (newTokenAddr ch)]\<rparr>
                  sender (factoryAddr f) val
        in
        let sent = call_value w (factoryAddr f) (TokenFactory.platform f) val in
        bnd (require (fst sent) ''Fee transfer failed'') (\<lambda>_. Inr (snd sent))))))"

text \<open>
  \<^verbatim>\<open>transferTokenOwnership(token, newOwner)\<close> for \<open>token\<close> the token of this pair. The
  factory is \<^verbatim>\<open>msg.sender\<close> of the inner call; its address is the curve's \<^verbatim>\<open>factory\<close>
  immutable.
\<close>

definition transferTokenOwnership :: "world \<Rightarrow> address \<Rightarrow> address \<Rightarrow> error + world" where
  "transferTokenOwnership w sender newOwner =
     bnd (require (sender = ERC20Token.deployer (tok w)) ''Only deployer'') (\<lambda>_.
     transferOwnership w (factory (crv w)) newOwner)"

section \<open>Transactions\<close>

text \<open>
  Every state-changing external function of the three contracts. A transaction that fails
  is reverted by the EVM: it leaves the world as it was.
\<close>

datatype call =
    Buy nat
  | Sell nat
  | WithdrawPlatformFees
  | Initialize nat
  | Mint address nat
  | Burn nat
  | TransferOwnership address
  | ClaimVestedTokens
  | SetMilestonesReached
  | BurnUnvestedTokens
  | Erc20Transfer address nat
  | Erc20Approve address nat
  | Erc20TransferFrom address address nat
  | TransferTokenOwnership address

fun step :: "world \<Rightarrow> address \<Rightarrow> nat \<Rightarrow> call \<Rightarrow> error + world" where
  "step w sender now (Buy val) = buy w sender val"
| "step w sender now (Sell tokenAmount) = sell w sender tokenAmount"
| "step w sender now WithdrawPlatformFees = withdrawPlatformFees w sender"
| "step w sender now (Initialize val) = initialize w sender val"
| "step w sender now (Mint to amount) = mint w sender to amount"
| "step w sender now (Burn amount) = burn w sender amount"
| "step w sender now (TransferOwnership newOwner) = transferOwnership w sender newOwner"
| "step w sender now ClaimVestedTokens = claimVestedTokens w sender now"
| "step w sender now SetMilestonesReached = setMilestonesReached w sender"
| "step w sender now BurnUnvestedTokens = burnUnvestedTokens w sender now"
| "step w sender now (Erc20Transfer to val) = transfer w sender to val"
| "step w sender now (Erc20Approve spender val) = approve w sender spender val"
| "step w sender now (Erc20TransferFrom from to val) = transferFrom w sender from to val"
| "step w sender now (TransferTokenOwnership newOwner) = transferTokenOwnership w sender newOwner"

definition exec :: "world \<Rightarrow> address \<times> nat \<times> call \<Rightarrow> world" where
  "exec w tx =
     (case tx of (sender, now, c) \<Rightarrow>
        (case step w sender now c of Inl e \<Rightarrow> w | Inr w' \<Rightarrow> w'))"

definition run :: "world \<Rightarrow> (address \<times> nat \<times> call) list \<Rightarrow> world" where
  "run w txs = foldl exec w txs"

section \<open>Auxiliary notions for the proofs\<close>

text \<open>
  The two results of \<^verbatim>\<open>_calculateFees\<close> that matter while the curve has not graduated
  (\<^verbatim>\<open>DEPLOYER_FEE\<close> is zero), as abbreviations.
\<close>

abbreviation feeOf :: "nat \<Rightarrow> nat" where
  "feeOf amount \<equiv> amount * PLATFORM_FEE div FEE_DENOMINATOR"

abbreviation netOf :: "nat \<Rightarrow> nat" where
  "netOf amount \<equiv> amount - amount * PLATFORM_FEE div FEE_DENOMINATOR"

text \<open>
  The world inside \<^verbatim>\<open>buy\<close> after \<^verbatim>\<open>totalEthInvested += ethForTokens\<close>, just before the
  graduation check, when the price was \<open>price\<close>.
\<close>

definition minted :: "world \<Rightarrow> address \<Rightarrow> nat \<Rightarrow> nat \<Rightarrow> world" where
  "minted w sender val price =
     (move_eth w sender (curveAddr w) val)
       \<lparr>tok := (tok w)\<lparr>totalSupply := totalSupply (tok w) + netOf val * 10 ^ 18 div price,
                      balances := (balances (tok w))
                        (sender := unchecked_add (balances (tok w) sender) (netOf val * 10 ^ 18 div price))\<rparr>,
        events := events w @ [Transfer 0 sender (netOf val * 10 ^ 18 div price),
                              TokensMinted sender (netOf val * 10 ^ 18 div price)],
        crv := (crv w)\<lparr>platformFeesCollected := platformFeesCollected (crv w) + feeOf val,
                      totalEthInvested := totalEthInvested (crv w) + netOf val\<rparr>\<rparr>"

definition is_Graduated :: "event \<Rightarrow> bool" where
  "is_Graduated e = (case e of Graduated _ _ \<Rightarrow> True | _ \<Rightarrow> False)"

text \<open>
  What no transaction changes, and the two latches: the flags only go from false to true,
  and the log gains one \<^verbatim>\<open>Graduated\<close> event exactly when \<^verbatim>\<open>hasGraduated\<close> becomes true.
\<close>

definition frame :: "world \<Rightarrow> world \<Rightarrow> bool" where
  "frame w w' \<longleftrightarrow>
     curveAddr w' = curveAddr w \<and> factory (crv w') = factory (crv w) \<and>
     ERC20Token.deployer (tok w') = ERC20Token.deployer (tok w) \<and>
     vestingStartTime (tok w') = vestingStartTime (tok w) \<and>
     (hasGraduated (crv w) \<longrightarrow> hasGraduated (crv w')) \<and>
     (milestonesReached (tok w) \<longrightarrow> milestonesReached (tok w')) \<and>
     length (filter is_Graduated (events w')) =
       length (filter is_Graduated (events w)) +
       (if hasGraduated (crv w') \<and> \<not> hasGraduated (crv w) then 1 else 0)"

text \<open>A list of purchases \<open>(sender, msg.value)\<close> executed one after the other; it stops at the first failure.\<close>

fun buys :: "world \<Rightarrow> (address \<times> nat) list \<Rightarrow> error + world" where
  "buys w [] = Inr w"
| "buys w ((sender, val) # bs) = bnd (buy w sender val) (\<lambda>w'. buys w' bs)"

section \<open>Concrete states\<close>

text \<open>
  A factory at address 100 with platform 200; the deployer 300 and a trader 400 own ether.
  \<open>w_created\<close> is the pair that \<^verbatim>\<open>createToken\<close> deploys at time 1000 (token at 500, curve at
  600); in \<open>w_live\<close> the deployer has handed the token's ownership to the curve; in
  \<open>w_bought\<close> the trader has bought for one ether and approved the curve; in \<open>w_pregrad\<close>
  the trader has bought for 99 ether and given part of the tokens to the curve. In \<open>w_owned\<close>
  the deployer has handed the ownership to the account 700 instead, which has set the
  milestone flag in \<open>w_reached\<close>. In \<open>w_claimed\<close> the deployer of \<open>w_live\<close> has claimed at half
  of the vesting period, before any purchase. In \<open>w_burnt\<close> the trader has bought for one
  ether and burned all the tokens, in \<open>w_scarce\<close> all but one. In \<open>w_graduated\<close> the trader of
  \<open>w_pregrad\<close> has bought for two more ether. \<open>w_short\<close> is \<open>w_bought\<close> with the recorded
  total supply lowered to a hundredth, below the balance of the trader.
\<close>

definition factory0 :: TokenFactory where
  "factory0 = \<lparr>factoryAddr = 100, platform = 200\<rparr>"

definition chain0 :: chain where
  "chain0 = \<lparr>ethBalances = (\<lambda>a. if a = 300 \<or> a = 400 then 1000 * ether else 0),
             rejecting = (\<lambda>_. False), timestamp = 1000, newTokenAddr = 500, newCurveAddr = 600\<rparr>"

definition w_created :: world where
  "w_created = projr (createToken factory0 chain0 300 TOKEN_CREATION_FEE ''Token'' ''TKN'')"

definition w_live :: world where
  "w_live = run w_created [(300, 1000, TransferTokenOwnership 600)]"

definition w_bought :: world where
  "w_bought = run w_live [(400, 2000, Buy ether), (400, 2000, Erc20Approve 600 (10 ^ 21))]"

definition w_pregrad :: world where
  "w_pregrad = run w_live [(400, 2000, Buy (99 * ether)), (400, 2000, Erc20Transfer 600 (2 * 10 ^ 23))]"

definition w_owned :: world where
  "w_owned = run w_created [(300, 1000, TransferTokenOwnership 700)]"

definition w_reached :: world where
  "w_reached = run w_owned [(700, 2000, SetMilestonesReached)]"

definition w_claimed :: world where
  "w_claimed = run w_live [(300, 1000 + VESTING_DURATION div 2, ClaimVestedTokens)]"

definition w_burnt :: world where
  "w_burnt = run w_live [(400, 2000, Buy ether), (400, 2000, Burn (9925 * 10 ^ 18))]"

definition w_scarce :: world where
  "w_scarce = run w_live [(400, 2000, Buy ether), (400, 2000, Burn (9925 * 10 ^ 18 - 1))]"

definition w_graduated :: world where
  "w_graduated = run w_pregrad [(400, 2000, Buy (2 * ether))]"

definition w_short :: world where
  "w_short = w_bought\<lparr>tok := (tok w_bought)\<lparr>totalSupply := 9925 * 10 ^ 16\<rparr>\<rparr>"

section \<open>Basic facts\<close>

lemma bnd_Inl [simp]: "bnd (Inl e) f = Inl e" by (simp add: bnd_def)
lemma bnd_Inr [simp]: "bnd (Inr x) f = f x" by (simp add: bnd_def)
lemma bnd_eq_Inr: "bnd m f = Inr y \<longleftrightarrow> (\<exists>x. m = Inr x \<and> f x = Inr y)"
  by (cases m) simp_all
lemma require_Inr [simp]: "require c m = Inr u \<longleftrightarrow> c" by (simp add: require_def)
lemma require_Inl [simp]: "require c m = Inl e \<longleftrightarrow> \<not> c \<and> e = Revert m" by (auto simp add: require_def)

lemma checked_add_Inr [simp]: "checked_add a b = Inr c \<longleftrightarrow> a + b \<le> UINT256_MAX \<and> c = a + b"
  by (auto simp: checked_add_def)
lemma checked_sub_Inr [simp]: "checked_sub a b = Inr c \<longleftrightarrow> b \<le> a \<and> c = a - b"
  by (auto simp: checked_sub_def)
lemma checked_mul_Inr [simp]: "checked_mul a b = Inr c \<longleftrightarrow> a * b \<le> UINT256_MAX \<and> c = a * b"
  by (auto simp: checked_mul_def)
lemma checked_div_Inr [simp]: "checked_div a b = Inr c \<longleftrightarrow> b \<noteq> 0 \<and> c = a div b"
  by (auto simp: checked_div_def)

lemma le_UINT256_MAX: "a \<le> UINT256_MAX \<longleftrightarrow> a < 2 ^ 256"
proof -
  have "(0::nat) < 2 ^ 256" by (rule zero_less_power) simp
  then have "\<And>n::nat. 0 < n \<Longrightarrow> (a \<le> n - 1 \<longleftrightarrow> a < n)" by arith
  then show ?thesis unfolding UINT256_MAX_def using \<open>(0::nat) < 2 ^ 256\<close> by blast
qed

lemma unchecked_add_exact: "a + b \<le> UINT256_MAX \<Longrightarrow> unchecked_add a b = a + b"
  unfolding unchecked_add_def le_UINT256_MAX by (rule mod_less)

lemma wrap_sub: "b \<le> a \<Longrightarrow> a < M \<Longrightarrow> (a + M - b mod M) mod M = a - (b::nat)"
proof -
  assume h: "b \<le> a" "a < M"
  have e1: "b mod M = b" using h by simp
  have e2: "a + M - b = (a - b) + M" using h by arith
  have e3: "a - b < M" using h by arith
  have "(a + M - b mod M) mod M = ((a - b) + M) mod M" by (simp only: e1 e2)
  also have "\<dots> = (a - b) mod M" by (rule mod_add_self2)
  also have "\<dots> = a - b" using e3 by (rule mod_less)
  finally show ?thesis .
qed

lemma unchecked_sub_exact: "b \<le> a \<Longrightarrow> a \<le> UINT256_MAX \<Longrightarrow> unchecked_sub a b = a - b"
  unfolding unchecked_sub_def le_UINT256_MAX by (rule wrap_sub)

lemma emit_fields [simp]:
  "tok (emit w e) = tok w" "crv (emit w e) = crv w" "curveAddr (emit w e) = curveAddr w"
  "ethBalance (emit w e) = ethBalance w" "rejectsEth (emit w e) = rejectsEth w"
  "events (emit w e) = events w @ [e]"
  by (simp_all add: emit_def)

lemma move_eth_fields [simp]:
  "tok (move_eth w a b v) = tok w" "crv (move_eth w a b v) = crv w"
  "curveAddr (move_eth w a b v) = curveAddr w" "rejectsEth (move_eth w a b v) = rejectsEth w"
  "events (move_eth w a b v) = events w"
  by (simp_all add: move_eth_def Let_def)

section \<open>The ERC20 functions on success\<close>

lemma ERC20_mint_Inr:
  "ERC20_mint w to amt = Inr w' \<longleftrightarrow>
     to \<noteq> 0 \<and> totalSupply (tok w) + amt \<le> UINT256_MAX \<and>
     w' = w\<lparr>tok := (tok w)\<lparr>totalSupply := totalSupply (tok w) + amt,
                   balances := (balances (tok w))(to := unchecked_add (balances (tok w) to) amt)\<rparr>,
             events := events w @ [Transfer 0 to amt]\<rparr>"
  by (auto simp: ERC20_mint_def ERC20_update_def bnd_eq_Inr emit_def Let_def)

lemma ERC20_burn_Inr:
  "ERC20_burn w a amt = Inr w' \<longleftrightarrow>
     a \<noteq> 0 \<and> amt \<le> balances (tok w) a \<and>
     w' = w\<lparr>tok := (tok w)\<lparr>balances := (balances (tok w))(a := balances (tok w) a - amt),
                    totalSupply := unchecked_sub (totalSupply (tok w)) amt\<rparr>,
             events := events w @ [Transfer a 0 amt]\<rparr>"
  by (auto simp: ERC20_burn_def ERC20_update_def bnd_eq_Inr emit_def Let_def)

lemma mint_Inr:
  "mint w s to amt = Inr w' \<longleftrightarrow>
     s = owner (tok w) \<and> to \<noteq> 0 \<and> totalSupply (tok w) + amt \<le> UINT256_MAX \<and>
     w' = w\<lparr>tok := (tok w)\<lparr>totalSupply := totalSupply (tok w) + amt,
                   balances := (balances (tok w))(to := unchecked_add (balances (tok w) to) amt)\<rparr>,
             events := events w @ [Transfer 0 to amt, TokensMinted to amt]\<rparr>"
  by (auto simp: mint_def ERC20_mint_Inr bnd_eq_Inr emit_def)

lemma burn_Inr:
  "burn w s amt = Inr w' \<longleftrightarrow>
     s \<noteq> 0 \<and> amt \<le> balances (tok w) s \<and>
     w' = w\<lparr>tok := (tok w)\<lparr>balances := (balances (tok w))(s := balances (tok w) s - amt),
                    totalSupply := unchecked_sub (totalSupply (tok w)) amt\<rparr>,
             events := events w @ [Transfer s 0 amt, TokensBurned s amt]\<rparr>"
  by (auto simp: burn_def ERC20_burn_Inr bnd_eq_Inr emit_def)

lemma ERC20_transfer_Inr:
  "ERC20_transfer w a b v = Inr w' \<longleftrightarrow>
     a \<noteq> 0 \<and> b \<noteq> 0 \<and> v \<le> balances (tok w) a \<and>
     w' = w\<lparr>tok := (tok w)\<lparr>balances :=
                 (let b1 = (balances (tok w))(a := balances (tok w) a - v)
                  in b1(b := unchecked_add (b1 b) v))\<rparr>,
             events := events w @ [Transfer a b v]\<rparr>"
  by (auto simp: ERC20_transfer_def ERC20_update_def bnd_eq_Inr emit_def Let_def)

lemma ERC20_spendAllowance_Inr:
  "ERC20_spendAllowance w a sp v = Inr w' \<longleftrightarrow>
     (if allowances (tok w) a sp < UINT256_MAX
      then v \<le> allowances (tok w) a sp \<and> a \<noteq> 0 \<and> sp \<noteq> 0 \<and>
           w' = w\<lparr>tok := (tok w)\<lparr>allowances := (allowances (tok w))
                    (a := (allowances (tok w) a)(sp := unchecked_sub (allowances (tok w) a sp) v))\<rparr>\<rparr>
      else w' = w)"
  by (auto simp: ERC20_spendAllowance_def ERC20_approve_def Let_def)

lemma transferFrom_Inr:
  "transferFrom w sp a b v = Inr w' \<longleftrightarrow>
     (\<exists>w1. ERC20_spendAllowance w a sp v = Inr w1 \<and> ERC20_transfer w1 a b v = Inr w')"
  by (simp add: transferFrom_def bnd_eq_Inr)

lemma calculateFees_eq:
  "calculateFees w a =
     (if hasGraduated (crv w) then Inr (a, 0, 0)
      else if a * PLATFORM_FEE > UINT256_MAX then Inl (Panic 17)
      else Inr (a - a * PLATFORM_FEE div FEE_DENOMINATOR, a * PLATFORM_FEE div FEE_DENOMINATOR, 0))"
proof -
  have "a * PLATFORM_FEE div FEE_DENOMINATOR \<le> a"
    by (simp add: PLATFORM_FEE_def FEE_DENOMINATOR_def)
  then show ?thesis
    by (simp add: calculateFees_def checked_mul_def checked_sub_def DEPLOYER_FEE_def Let_def)
qed


lemma getCurrentPrice_eq:
  "getCurrentPrice w =
     (if totalSupply (tok w) = 0 then Inr BASE_PRICE
      else if totalEthInvested (crv w) * 10 ^ 18 > UINT256_MAX then Inl (Panic 17)
      else Inr (totalEthInvested (crv w) * 10 ^ 18 div totalSupply (tok w)))"
  by (simp add: getCurrentPrice_def checked_mul_def checked_div_def)

lemma getCurrentPrice_move_eth [simp]: "getCurrentPrice (move_eth w a b v) = getCurrentPrice w"
  by (simp add: getCurrentPrice_def)

lemma calculateBuyReturn_Inr:
  "calculateBuyReturn w e = Inr t \<longleftrightarrow>
     (\<exists>price. getCurrentPrice w = Inr price \<and> e * 10 ^ 18 \<le> UINT256_MAX \<and> price \<noteq> 0 \<and>
              t = e * 10 ^ 18 div price)"
  by (auto simp: calculateBuyReturn_def bnd_eq_Inr)

lemma calculateSellReturn_Inr:
  "calculateSellReturn w n = Inr r \<longleftrightarrow>
     (\<exists>price. getCurrentPrice w = Inr price \<and> n * price \<le> UINT256_MAX \<and> r = n * price div 10 ^ 18)"
  by (auto simp: calculateSellReturn_def bnd_eq_Inr)

lemma checkGraduation_eq:
  "checkGraduation w \<longleftrightarrow> \<not> hasGraduated (crv w) \<and> GRADUATION_THRESHOLD \<le> totalEthInvested (crv w)"
  by (simp add: checkGraduation_def getMarketCap_def Let_def)

lemma executeGraduation_Inr:
  "executeGraduation w = Inr w' \<longleftrightarrow>
     totalSupply (tok w) * BURN_PERCENTAGE \<le> UINT256_MAX \<and>
     (let b = totalSupply (tok w) * BURN_PERCENTAGE div FEE_DENOMINATOR in
      if 0 < b
      then curveAddr w \<noteq> 0 \<and> b \<le> balances (tok w) (curveAddr w) \<and>
           w' = w\<lparr>crv := (crv w)\<lparr>hasGraduated := True, liquidityAdded := True\<rparr>,
                   tok := (tok w)\<lparr>balances := (balances (tok w))
                            (curveAddr w := balances (tok w) (curveAddr w) - b),
                          totalSupply := unchecked_sub (totalSupply (tok w)) b\<rparr>,
                   events := events w @ [Transfer (curveAddr w) 0 b,
                     Graduated (totalEthInvested (crv w)) (ethBalance w (curveAddr w))]\<rparr>
      else w' = w\<lparr>crv := (crv w)\<lparr>hasGraduated := True, liquidityAdded := True\<rparr>,
                   events := events w @
                     [Graduated (totalEthInvested (crv w)) (ethBalance w (curveAddr w))]\<rparr>)"
  by (auto simp: executeGraduation_def bnd_eq_Inr burnFrom_def ERC20_burn_Inr getMarketCap_def
        emit_def Let_def)

lemma msg_value_Inr:
  "msg_value w s c v = Inr w0 \<longleftrightarrow> v \<le> ethBalance w s \<and> w0 = move_eth w s c v"
  by (auto simp: msg_value_def)

lemma calculateFees_Inr:
  "calculateFees w a = Inr r \<longleftrightarrow>
     (if hasGraduated (crv w) then r = (a, 0, 0)
      else a * PLATFORM_FEE \<le> UINT256_MAX \<and> r = (netOf a, feeOf a, 0))"
  by (auto simp: calculateFees_eq)

lemma buyD:
  assumes "buy w s v = Inr w'"
  shows "\<exists>price w4.
      v \<le> ethBalance w s \<and> MIN_BUY \<le> v \<and> \<not> hasGraduated (crv w) \<and>
      v * PLATFORM_FEE \<le> UINT256_MAX \<and>
      getCurrentPrice w = Inr price \<and> 0 < price \<and> 0 < netOf v * 10 ^ 18 div price \<and>
      curveAddr w = owner (tok w) \<and> s \<noteq> 0 \<and>
      totalSupply (tok w) + netOf v * 10 ^ 18 div price \<le> UINT256_MAX \<and>
      (if GRADUATION_THRESHOLD \<le> totalEthInvested (crv w) + netOf v
       then executeGraduation (minted w s v price) else Inr (minted w s v price)) = Inr w4 \<and>
      w' = emit w4 (Bought s v (netOf v * 10 ^ 18 div price) (feeOf v))"
  using assms unfolding buy_def
  apply (clarsimp simp: bnd_eq_Inr msg_value_Inr calculateFees_Inr mint_Inr calculateBuyReturn_Inr
      checkGraduation_eq Let_def minted_def split: prod.splits cong: if_cong)
  apply (rule_tac x=price in exI)
  apply (auto simp: minted_def)
  done


lemma is_Graduated_simps [simp]:
  "is_Graduated (Graduated a b)" "\<not> is_Graduated (Transfer x y z)" "\<not> is_Graduated (Approval x y z)"
  "\<not> is_Graduated (TokensMinted x a)" "\<not> is_Graduated (TokensBurned x a)" "\<not> is_Graduated MilestonesReached"
  "\<not> is_Graduated (DeployerTokensVested a)" "\<not> is_Graduated (UnvestedTokensBurned a)"
  "\<not> is_Graduated (Bought x a b c)" "\<not> is_Graduated (Sold x a b c)"
  "\<not> is_Graduated (TokenCreated x n1 n2 y)" "\<not> is_Graduated (BondingCurveCreated x y)"
  by (simp_all add: is_Graduated_def)

lemma ERC20_spendAllowance_fields:
  assumes "ERC20_spendAllowance w a sp v = Inr w1"
  shows "crv w1 = crv w \<and> curveAddr w1 = curveAddr w \<and> ethBalance w1 = ethBalance w \<and>
    rejectsEth w1 = rejectsEth w \<and> events w1 = events w \<and>
    totalSupply (tok w1) = totalSupply (tok w) \<and> owner (tok w1) = owner (tok w) \<and>
    ERC20Token.deployer (tok w1) = ERC20Token.deployer (tok w) \<and>
    vestingStartTime (tok w1) = vestingStartTime (tok w) \<and>
    vestedAmount (tok w1) = vestedAmount (tok w) \<and>
    milestonesReached (tok w1) = milestonesReached (tok w) \<and>
    balances (tok w1) = balances (tok w)"
proof (cases "allowances (tok w) a sp < UINT256_MAX")
  case True
  with assms show ?thesis by (simp add: ERC20_spendAllowance_Inr)
next
  case False
  with assms show ?thesis by (simp add: ERC20_spendAllowance_Inr)
qed

lemma ERC20_transfer_fields:
  assumes "ERC20_transfer w a b v = Inr w1"
  shows "crv w1 = crv w \<and> curveAddr w1 = curveAddr w \<and> ethBalance w1 = ethBalance w \<and>
    rejectsEth w1 = rejectsEth w \<and> events w1 = events w @ [Transfer a b v] \<and>
    totalSupply (tok w1) = totalSupply (tok w) \<and> owner (tok w1) = owner (tok w) \<and>
    ERC20Token.deployer (tok w1) = ERC20Token.deployer (tok w) \<and>
    vestingStartTime (tok w1) = vestingStartTime (tok w) \<and>
    vestedAmount (tok w1) = vestedAmount (tok w) \<and>
    milestonesReached (tok w1) = milestonesReached (tok w) \<and>
    allowances (tok w1) = allowances (tok w) \<and>
    a \<noteq> 0 \<and> b \<noteq> 0 \<and> v \<le> balances (tok w) a \<and>
    balances (tok w1) = ((balances (tok w))(a := balances (tok w) a - v))
       (b := unchecked_add (((balances (tok w))(a := balances (tok w) a - v)) b) v)"
  using assms by (simp add: ERC20_transfer_Inr Let_def)

lemma transferFrom_fields:
  assumes "transferFrom w sp a b v = Inr w1"
  shows "crv w1 = crv w" "curveAddr w1 = curveAddr w" "ethBalance w1 = ethBalance w"
    "rejectsEth w1 = rejectsEth w" "events w1 = events w @ [Transfer a b v]"
    "totalSupply (tok w1) = totalSupply (tok w)" "owner (tok w1) = owner (tok w)"
    "ERC20Token.deployer (tok w1) = ERC20Token.deployer (tok w)"
    "vestingStartTime (tok w1) = vestingStartTime (tok w)"
    "vestedAmount (tok w1) = vestedAmount (tok w)"
    "milestonesReached (tok w1) = milestonesReached (tok w)"
    "a \<noteq> 0" "b \<noteq> 0" "v \<le> balances (tok w) a"
    "balances (tok w1) = ((balances (tok w))(a := balances (tok w) a - v))
       (b := unchecked_add (((balances (tok w))(a := balances (tok w) a - v)) b) v)"
proof -
  from assms obtain w0 where s: "ERC20_spendAllowance w a sp v = Inr w0"
    and t: "ERC20_transfer w0 a b v = Inr w1"
    by (auto simp: transferFrom_Inr)
  note S = ERC20_spendAllowance_fields[OF s] and T = ERC20_transfer_fields[OF t]
  show "crv w1 = crv w" "curveAddr w1 = curveAddr w" "ethBalance w1 = ethBalance w"
    "rejectsEth w1 = rejectsEth w" "events w1 = events w @ [Transfer a b v]"
    "totalSupply (tok w1) = totalSupply (tok w)" "owner (tok w1) = owner (tok w)"
    "ERC20Token.deployer (tok w1) = ERC20Token.deployer (tok w)"
    "vestingStartTime (tok w1) = vestingStartTime (tok w)"
    "vestedAmount (tok w1) = vestedAmount (tok w)"
    "milestonesReached (tok w1) = milestonesReached (tok w)"
    "a \<noteq> 0" "b \<noteq> 0" "v \<le> balances (tok w) a"
    "balances (tok w1) = ((balances (tok w))(a := balances (tok w) a - v))
       (b := unchecked_add (((balances (tok w))(a := balances (tok w) a - v)) b) v)"
    using S T by simp_all
qed

lemma getCurrentPrice_cong2:
  "totalSupply (tok w1) = totalSupply (tok w) \<Longrightarrow> crv w1 = crv w \<Longrightarrow> getCurrentPrice w1 = getCurrentPrice w"
  by (simp add: getCurrentPrice_def)

lemma call_value_fst: "fst (call_value w a b v) \<longleftrightarrow> v \<le> ethBalance w a \<and> \<not> rejectsEth w b"
  by (auto simp: call_value_def)

lemma call_value_snd: "fst (call_value w a b v) \<Longrightarrow> snd (call_value w a b v) = move_eth w a b v"
  by (auto simp: call_value_def)

lemma sellD:
  assumes "sell w s n = Inr w'"
  shows "\<exists>price w1.
      0 < n \<and> \<not> hasGraduated (crv w) \<and>
      transferFrom w (curveAddr w) s (curveAddr w) n = Inr w1 \<and>
      getCurrentPrice w = Inr price \<and> n * price \<le> UINT256_MAX \<and>
      (n * price div 10 ^ 18) * PLATFORM_FEE \<le> UINT256_MAX \<and>
      netOf (n * price div 10 ^ 18) \<le> ethBalance w (curveAddr w) \<and>
      \<not> rejectsEth w s \<and> n \<le> balances (tok w1) (curveAddr w) \<and>
      crv w' = (crv w)\<lparr>platformFeesCollected := platformFeesCollected (crv w) + feeOf (n * price div 10 ^ 18),
                        totalEthInvested :=
                          (if totalEthInvested (crv w) > netOf (n * price div 10 ^ 18)
                           then totalEthInvested (crv w) - netOf (n * price div 10 ^ 18) else 0)\<rparr> \<and>
      tok w' = (tok w1)\<lparr>balances := (balances (tok w1))(curveAddr w := balances (tok w1) (curveAddr w) - n),
                        totalSupply := unchecked_sub (totalSupply (tok w)) n\<rparr> \<and>
      ethBalance w' = ethBalance (move_eth w (curveAddr w) s (netOf (n * price div 10 ^ 18))) \<and>
      curveAddr w' = curveAddr w \<and> rejectsEth w' = rejectsEth w \<and>
      events w' = events w @ [Transfer s (curveAddr w) n, Transfer (curveAddr w) 0 n,
                    TokensBurned (curveAddr w) n,
                    Sold s (netOf (n * price div 10 ^ 18)) n (feeOf (n * price div 10 ^ 18))]"
proof -
  from assms obtain w1 gross net fee dfee w2 where
    n: "0 < n" and g: "\<not> hasGraduated (crv w)" and
    t: "transferFrom w (curveAddr w) s (curveAddr w) n = Inr w1" and
    r: "calculateSellReturn w1 n = Inr gross" and
    f: "calculateFees w1 gross = Inr (net, fee, dfee)" and
    e: "net \<le> ethBalance w1 (curveAddr w1)" and
    b: "burn (w1\<lparr>crv := (crv w1)\<lparr>platformFeesCollected := platformFeesCollected (crv w1) + fee\<rparr>\<rparr>)
          (curveAddr w1) n = Inr w2" and
    c: "fst (call_value (if net < totalEthInvested (crv w2)
            then w2\<lparr>crv := (crv w2)\<lparr>totalEthInvested := totalEthInvested (crv w2) - net\<rparr>\<rparr>
            else w2\<lparr>crv := (crv w2)\<lparr>totalEthInvested := 0\<rparr>\<rparr>)
          (curveAddr (if net < totalEthInvested (crv w2)
            then w2\<lparr>crv := (crv w2)\<lparr>totalEthInvested := totalEthInvested (crv w2) - net\<rparr>\<rparr>
            else w2\<lparr>crv := (crv w2)\<lparr>totalEthInvested := 0\<rparr>\<rparr>)) s net)" and
    w': "w' = emit (snd (call_value (if net < totalEthInvested (crv w2)
            then w2\<lparr>crv := (crv w2)\<lparr>totalEthInvested := totalEthInvested (crv w2) - net\<rparr>\<rparr>
            else w2\<lparr>crv := (crv w2)\<lparr>totalEthInvested := 0\<rparr>\<rparr>)
          (curveAddr (if net < totalEthInvested (crv w2)
            then w2\<lparr>crv := (crv w2)\<lparr>totalEthInvested := totalEthInvested (crv w2) - net\<rparr>\<rparr>
            else w2\<lparr>crv := (crv w2)\<lparr>totalEthInvested := 0\<rparr>\<rparr>)) s net)) (Sold s net n fee)"
    unfolding sell_def
    by (auto simp: bnd_eq_Inr Let_def)
  note tf = transferFrom_fields[OF t]
  from r obtain price where p: "getCurrentPrice w = Inr price" "n * price \<le> UINT256_MAX"
     "gross = n * price div 10 ^ 18"
    by (auto simp: calculateSellReturn_Inr getCurrentPrice_cong2[OF tf(6) tf(1)])
  from f g have ff: "gross * PLATFORM_FEE \<le> UINT256_MAX" "net = netOf gross" "fee = feeOf gross"
    by (auto simp: calculateFees_Inr tf(1))
  from b have w2: "tok w2 = (tok w1)\<lparr>balances := (balances (tok w1))(curveAddr w := balances (tok w1) (curveAddr w) - n),
                        totalSupply := unchecked_sub (totalSupply (tok w)) n\<rparr>"
      "crv w2 = (crv w)\<lparr>platformFeesCollected := platformFeesCollected (crv w) + feeOf gross\<rparr>"
      "curveAddr w2 = curveAddr w" "ethBalance w2 = ethBalance w" "rejectsEth w2 = rejectsEth w"
      "events w2 = events w @ [Transfer s (curveAddr w) n, Transfer (curveAddr w) 0 n, TokensBurned (curveAddr w) n]"
      "n \<le> balances (tok w1) (curveAddr w)"
    by (simp_all add: burn_Inr tf ff)
  define w3 where "w3 = w2\<lparr>crv := (crv w2)\<lparr>totalEthInvested :=
            (if net < totalEthInvested (crv w2) then totalEthInvested (crv w2) - net else 0)\<rparr>\<rparr>"
  have w3: "(if net < totalEthInvested (crv w2)
            then w2\<lparr>crv := (crv w2)\<lparr>totalEthInvested := totalEthInvested (crv w2) - net\<rparr>\<rparr>
            else w2\<lparr>crv := (crv w2)\<lparr>totalEthInvested := 0\<rparr>\<rparr>) = w3"
    by (simp add: w3_def)
  from c have c': "fst (call_value w3 (curveAddr w3) s net)" by (simp only: w3)
  from w' have w'': "w' = emit (move_eth w3 (curveAddr w3) s net) (Sold s net n fee)"
    by (simp only: w3 call_value_snd[OF c'])
  have f3: "tok w3 = tok w2" "curveAddr w3 = curveAddr w" "ethBalance w3 = ethBalance w"
     "rejectsEth w3 = rejectsEth w" "events w3 = events w2"
     "crv w3 = (crv w)\<lparr>platformFeesCollected := platformFeesCollected (crv w) + feeOf gross,
                        totalEthInvested :=
                          (if totalEthInvested (crv w) > netOf gross
                           then totalEthInvested (crv w) - netOf gross else 0)\<rparr>"
    by (simp_all add: w3_def w2 ff)
  from c' have c3: "\<not> rejectsEth w s" by (simp add: call_value_fst f3)
  have "crv w' = crv w3" "tok w' = tok w3" "curveAddr w' = curveAddr w" "rejectsEth w' = rejectsEth w"
     "ethBalance w' = ethBalance (move_eth w (curveAddr w) s net)"
     "events w' = events w3 @ [Sold s net n fee]"
    by (simp_all add: w'' f3 move_eth_def Let_def)
  then show ?thesis
    using n g t p ff e c3 w2 f3 tf(1-5)
    by (intro exI[of _ price] exI[of _ w1]) simp
qed


section \<open>What every transaction preserves\<close>

lemma frame_refl: "frame w w"
  by (simp add: frame_def)

lemma frame_trans: "frame w w1 \<Longrightarrow> frame w1 w2 \<Longrightarrow> frame w w2"
  unfolding frame_def
  by (cases "hasGraduated (crv w)"; cases "hasGraduated (crv w1)"; cases "hasGraduated (crv w2)";
      simp)

lemma frame_ERC20_transfer: "ERC20_transfer w a b v = Inr w' \<Longrightarrow> frame w w'"
  by (drule ERC20_transfer_fields) (simp add: frame_def)

lemma frame_transferFrom: "transferFrom w sp a b v = Inr w' \<Longrightarrow> frame w w'"
  by (simp add: frame_def transferFrom_fields)

lemma frame_approve: "approve w s sp v = Inr w' \<Longrightarrow> frame w w'"
  by (auto simp: approve_def ERC20_approve_def frame_def Let_def split: if_splits)

lemma frame_mint: "mint w s to amt = Inr w' \<Longrightarrow> frame w w'"
  by (auto simp: mint_Inr frame_def)

lemma frame_burn: "burn w s amt = Inr w' \<Longrightarrow> frame w w'"
  by (auto simp: burn_Inr frame_def)

lemma frame_transferOwnership: "transferOwnership w s a = Inr w' \<Longrightarrow> frame w w'"
  by (auto simp: transferOwnership_def bnd_eq_Inr frame_def)

lemma frame_transferTokenOwnership: "transferTokenOwnership w s a = Inr w' \<Longrightarrow> frame w w'"
  by (auto simp: transferTokenOwnership_def bnd_eq_Inr dest: frame_transferOwnership)

lemma frame_setMilestonesReached: "setMilestonesReached w s = Inr w' \<Longrightarrow> frame w w'"
  by (auto simp: setMilestonesReached_def bnd_eq_Inr frame_def)

lemma frame_burnUnvestedTokens: "burnUnvestedTokens w s now = Inr w' \<Longrightarrow> frame w w'"
  by (auto simp: burnUnvestedTokens_def bnd_eq_Inr frame_def)

lemma ERC20_mint_eq:
  "ERC20_mint w to amt =
     (if to = 0 then Inl (CustomError ''ERC20InvalidReceiver'')
      else if totalSupply (tok w) + amt \<le> UINT256_MAX
      then Inr (w\<lparr>tok := (tok w)\<lparr>totalSupply := totalSupply (tok w) + amt,
                   balances := (balances (tok w))(to := unchecked_add (balances (tok w) to) amt)\<rparr>,
                events := events w @ [Transfer 0 to amt]\<rparr>)
      else Inl (Panic 17))"
  by (simp add: ERC20_mint_def ERC20_update_def checked_add_def emit_def)

lemma claimVestedTokens_eq:
  assumes "calculateVestedAmount (tok w) now = Inr nv"
  shows "claimVestedTokens w s now =
     (if s \<noteq> ERC20Token.deployer (tok w) then Inl (Revert ''Only deployer'')
      else if vestedAmount (tok w) < nv
      then if s = 0 then Inl (CustomError ''ERC20InvalidReceiver'')
           else if totalSupply (tok w) + (nv - vestedAmount (tok w)) \<le> UINT256_MAX
           then Inr (w\<lparr>tok := (tok w)\<lparr>vestedAmount := nv,
                     totalSupply := totalSupply (tok w) + (nv - vestedAmount (tok w)),
                     balances := (balances (tok w))
                       (s := unchecked_add (balances (tok w) s) (nv - vestedAmount (tok w)))\<rparr>,
                   events := events w @ [Transfer 0 s (nv - vestedAmount (tok w)),
                                         DeployerTokensVested (nv - vestedAmount (tok w))]\<rparr>)
           else Inl (Panic 17)
      else Inr w)"
  using assms
  by (simp add: claimVestedTokens_def ERC20_mint_eq require_def checked_sub_def emit_def)

lemma frame_claimVestedTokens:
  assumes "claimVestedTokens w s now = Inr w'" shows "frame w w'"
proof -
  from assms obtain nv where nv: "calculateVestedAmount (tok w) now = Inr nv"
    by (auto simp: claimVestedTokens_def bnd_eq_Inr)
  show ?thesis
    using assms unfolding claimVestedTokens_eq[OF nv]
    by (auto simp: frame_def split: if_splits)
qed

lemma frame_initialize: "initialize w s v = Inr w' \<Longrightarrow> frame w w'"
  by (auto simp: initialize_def bnd_eq_Inr msg_value_Inr frame_def)

lemma frame_withdrawPlatformFees: "withdrawPlatformFees w s = Inr w' \<Longrightarrow> frame w w'"
  by (auto simp: withdrawPlatformFees_def bnd_eq_Inr call_value_snd frame_def Let_def)

lemma frame_sell:
  assumes "sell w s n = Inr w'"
  shows "frame w w'"
proof -
  from sellD[OF assms] obtain price w1 where
    t: "transferFrom w (curveAddr w) s (curveAddr w) n = Inr w1" and
    c: "crv w' = (crv w)\<lparr>platformFeesCollected := platformFeesCollected (crv w) + feeOf (n * price div 10 ^ 18),
                        totalEthInvested :=
                          (if totalEthInvested (crv w) > netOf (n * price div 10 ^ 18)
                           then totalEthInvested (crv w) - netOf (n * price div 10 ^ 18) else 0)\<rparr>" and
    k: "tok w' = (tok w1)\<lparr>balances := (balances (tok w1))(curveAddr w := balances (tok w1) (curveAddr w) - n),
                        totalSupply := unchecked_sub (totalSupply (tok w)) n\<rparr>" and
    ca: "curveAddr w' = curveAddr w" and
    ev: "events w' = events w @ [Transfer s (curveAddr w) n, Transfer (curveAddr w) 0 n,
                    TokensBurned (curveAddr w) n,
                    Sold s (netOf (n * price div 10 ^ 18)) n (feeOf (n * price div 10 ^ 18))]"
    by blast
  note tf = transferFrom_fields[OF t]
  show ?thesis
    unfolding frame_def by (simp add: c k ca ev tf)
qed

lemma minted_fields [simp]:
  "curveAddr (minted w s v p) = curveAddr w" "factory (crv (minted w s v p)) = factory (crv w)"
  "ERC20Token.deployer (tok (minted w s v p)) = ERC20Token.deployer (tok w)"
  "vestingStartTime (tok (minted w s v p)) = vestingStartTime (tok w)"
  "hasGraduated (crv (minted w s v p)) = hasGraduated (crv w)"
  "milestonesReached (tok (minted w s v p)) = milestonesReached (tok w)"
  "filter is_Graduated (events (minted w s v p)) = filter is_Graduated (events w)"
  "owner (tok (minted w s v p)) = owner (tok w)"
  "totalEthInvested (crv (minted w s v p)) = totalEthInvested (crv w) + netOf v"
  "platformFeesCollected (crv (minted w s v p)) = platformFeesCollected (crv w) + feeOf v"
  "liquidityAdded (crv (minted w s v p)) = liquidityAdded (crv w)"
  "totalSupply (tok (minted w s v p)) = totalSupply (tok w) + netOf v * 10 ^ 18 div p"
  "rejectsEth (minted w s v p) = rejectsEth w"
  by (simp_all add: minted_def)

lemma frame_executeGraduation:
  "executeGraduation w = Inr w' \<Longrightarrow> \<not> hasGraduated (crv w) \<Longrightarrow> frame w w'"
  by (auto simp: executeGraduation_Inr frame_def Let_def split: if_splits)

lemma frame_emit: "\<not> is_Graduated e \<Longrightarrow> frame w (emit w e)"
  by (simp add: frame_def)

lemma frame_minted: "frame w (minted w s v p)"
  by (simp add: frame_def)

lemma frame_buy: assumes "buy w s v = Inr w'" shows "frame w w'"
proof -
  from buyD[OF assms] obtain price w4 where
    g: "\<not> hasGraduated (crv w)" and
    e: "(if GRADUATION_THRESHOLD \<le> totalEthInvested (crv w) + netOf v
       then executeGraduation (minted w s v price) else Inr (minted w s v price)) = Inr w4" and
    w': "w' = emit w4 (Bought s v (netOf v * 10 ^ 18 div price) (feeOf v))"
    by blast
  have "frame (minted w s v price) w4"
    using e g by (auto simp: frame_refl frame_executeGraduation split: if_splits)
  with frame_minted have "frame w w4" by (rule frame_trans)
  moreover have "frame w4 w'" unfolding w' by (rule frame_emit) simp
  ultimately show ?thesis by (rule frame_trans)
qed

lemma step_frame: "step w s now c = Inr w' \<Longrightarrow> frame w w'"
  by (cases c)
    (simp_all add: frame_buy frame_sell frame_withdrawPlatformFees frame_initialize frame_mint
      frame_burn frame_transferOwnership frame_claimVestedTokens frame_setMilestonesReached
      frame_burnUnvestedTokens frame_ERC20_transfer[unfolded transfer_def[symmetric]] frame_approve frame_transferFrom
      frame_transferTokenOwnership)

lemma exec_frame: "frame w (exec w tx)"
  by (cases tx) (auto simp: exec_def frame_refl step_frame split: sum.splits)

lemma run_frame: "frame w (run w txs)"
proof (induction txs arbitrary: w)
  case Nil
  show ?case by (simp add: run_def frame_refl)
next
  case (Cons tx txs)
  have "frame w (exec w tx)" by (rule exec_frame)
  moreover have "frame (exec w tx) (run (exec w tx) txs)" by (rule Cons.IH)
  ultimately show ?case unfolding run_def by (simp add: frame_trans[unfolded run_def])
qed


lemma step_milestones_set:
  assumes "step w s now c = Inr w'" "\<not> milestonesReached (tok w)" "milestonesReached (tok w')"
  shows "c = SetMilestonesReached \<and> s = owner (tok w)"
proof (cases c)
  case (Buy v)
  with assms(1) have b: "buy w s v = Inr w'" by simp
  from buyD[OF b] obtain price w4 where
    e: "(if GRADUATION_THRESHOLD \<le> totalEthInvested (crv w) + netOf v
       then executeGraduation (minted w s v price) else Inr (minted w s v price)) = Inr w4" and
    w': "w' = emit w4 (Bought s v (netOf v * 10 ^ 18 div price) (feeOf v))"
    by blast
  from e have "milestonesReached (tok w4) = milestonesReached (tok w)"
    by (auto simp: executeGraduation_Inr Let_def split: if_splits)
  with w' assms(2,3) show ?thesis by simp
next
  case (Sell n)
  with assms(1) have "sell w s n = Inr w'" by simp
  from sellD[OF this] assms(2,3) show ?thesis by (auto simp: transferFrom_fields)
next
  case ClaimVestedTokens
  with assms(1) have c: "claimVestedTokens w s now = Inr w'" by simp
  then obtain nv where nv: "calculateVestedAmount (tok w) now = Inr nv"
    by (auto simp: claimVestedTokens_def bnd_eq_Inr)
  from c assms(2,3) show ?thesis unfolding claimVestedTokens_eq[OF nv]
    by (auto split: if_splits)
next
  case (Erc20TransferFrom a b v)
  with assms(1) have "transferFrom w s a b v = Inr w'" by simp
  from transferFrom_fields(11)[OF this] assms(2,3) show ?thesis by simp
next
  case (Erc20Transfer b v)
  with assms(1) have "ERC20_transfer w s b v = Inr w'" by (simp add: transfer_def)
  from ERC20_transfer_fields[OF this] assms(2,3) show ?thesis by simp
qed (use assms in \<open>auto simp: withdrawPlatformFees_def initialize_def msg_value_Inr call_value_snd
       mint_Inr burn_Inr transferOwnership_def setMilestonesReached_def burnUnvestedTokens_def
       approve_def ERC20_approve_def transferTokenOwnership_def bnd_eq_Inr Let_def split: if_splits\<close>)

lemma run_Cons: "run w (tx # txs) = run (exec w tx) txs"
  by (simp add: run_def)


section \<open>The effect of a purchase\<close>

lemma minted_more_fields [simp]:
  "events (minted w s v p) = events w @ [Transfer 0 s (netOf v * 10 ^ 18 div p),
                                          TokensMinted s (netOf v * 10 ^ 18 div p)]"
  "ethBalance (minted w s v p) = ethBalance (move_eth w s (curveAddr w) v)"
  "balances (tok (minted w s v p)) =
     (balances (tok w))(s := unchecked_add (balances (tok w) s) (netOf v * 10 ^ 18 div p))"
  "allowances (tok (minted w s v p)) = allowances (tok w)"
  "vestedAmount (tok (minted w s v p)) = vestedAmount (tok w)"
  by (simp_all add: minted_def)

lemma executeGraduation_fields:
  assumes "executeGraduation w = Inr w'"
  shows "hasGraduated (crv w')" "liquidityAdded (crv w')"
    "totalEthInvested (crv w') = totalEthInvested (crv w)"
    "platformFeesCollected (crv w') = platformFeesCollected (crv w)"
    "ethBalance w' = ethBalance w" "curveAddr w' = curveAddr w"
    "totalSupply (tok w) * BURN_PERCENTAGE div FEE_DENOMINATOR \<le> balances (tok w) (curveAddr w)"
    "totalSupply (tok w') =
       (if 0 < totalSupply (tok w) * BURN_PERCENTAGE div FEE_DENOMINATOR
        then unchecked_sub (totalSupply (tok w)) (totalSupply (tok w) * BURN_PERCENTAGE div FEE_DENOMINATOR)
        else totalSupply (tok w))"
    "balances (tok w') = (balances (tok w))(curveAddr w :=
        balances (tok w) (curveAddr w) - totalSupply (tok w) * BURN_PERCENTAGE div FEE_DENOMINATOR)"
    "events w' = events w @
       (if 0 < totalSupply (tok w) * BURN_PERCENTAGE div FEE_DENOMINATOR
        then [Transfer (curveAddr w) 0 (totalSupply (tok w) * BURN_PERCENTAGE div FEE_DENOMINATOR)]
        else []) @
       [Graduated (totalEthInvested (crv w)) (ethBalance w (curveAddr w))]"
  using assms
  by (auto simp: executeGraduation_Inr Let_def split: if_splits)

lemma buy_cases:
  assumes "buy w s v = Inr w'"
  obtains (below) price where
      "getCurrentPrice w = Inr price" "0 < price" "0 < netOf v * 10 ^ 18 div price"
      "totalSupply (tok w) + netOf v * 10 ^ 18 div price \<le> UINT256_MAX"
      "\<not> GRADUATION_THRESHOLD \<le> totalEthInvested (crv w) + netOf v"
      "w' = emit (minted w s v price) (Bought s v (netOf v * 10 ^ 18 div price) (feeOf v))"
    | (graduating) price w4 where
      "getCurrentPrice w = Inr price" "0 < price" "0 < netOf v * 10 ^ 18 div price"
      "totalSupply (tok w) + netOf v * 10 ^ 18 div price \<le> UINT256_MAX"
      "GRADUATION_THRESHOLD \<le> totalEthInvested (crv w) + netOf v"
      "executeGraduation (minted w s v price) = Inr w4"
      "w' = emit w4 (Bought s v (netOf v * 10 ^ 18 div price) (feeOf v))"
proof -
  from buyD[OF assms] obtain price w4 where
    p: "getCurrentPrice w = Inr price" "0 < price" "0 < netOf v * 10 ^ 18 div price"
      "totalSupply (tok w) + netOf v * 10 ^ 18 div price \<le> UINT256_MAX" and
    e: "(if GRADUATION_THRESHOLD \<le> totalEthInvested (crv w) + netOf v
       then executeGraduation (minted w s v price) else Inr (minted w s v price)) = Inr w4" and
    w': "w' = emit w4 (Bought s v (netOf v * 10 ^ 18 div price) (feeOf v))"
    by blast
  show thesis
  proof (cases "GRADUATION_THRESHOLD \<le> totalEthInvested (crv w) + netOf v")
    case True
    with e have x: "executeGraduation (minted w s v price) = Inr w4" by simp
    from p True x w' show ?thesis by (rule graduating)
  next
    case False
    with e have "w4 = minted w s v price" by simp
    with p False w' show ?thesis by (intro below) simp_all
  qed
qed

lemma buy_crv:
  assumes "buy w s v = Inr w'"
  shows "platformFeesCollected (crv w') = platformFeesCollected (crv w) + feeOf v"
    "totalEthInvested (crv w') = totalEthInvested (crv w) + netOf v"
    "hasGraduated (crv w') \<longleftrightarrow> GRADUATION_THRESHOLD \<le> totalEthInvested (crv w) + netOf v"
    "liquidityAdded (crv w') \<longleftrightarrow>
       liquidityAdded (crv w) \<or> GRADUATION_THRESHOLD \<le> totalEthInvested (crv w) + netOf v"
proof -
  from buyD[OF assms] have g: "\<not> hasGraduated (crv w)" by blast
  show "platformFeesCollected (crv w') = platformFeesCollected (crv w) + feeOf v"
    "totalEthInvested (crv w') = totalEthInvested (crv w) + netOf v"
    "hasGraduated (crv w') \<longleftrightarrow> GRADUATION_THRESHOLD \<le> totalEthInvested (crv w) + netOf v"
    "liquidityAdded (crv w') \<longleftrightarrow>
       liquidityAdded (crv w) \<or> GRADUATION_THRESHOLD \<le> totalEthInvested (crv w) + netOf v"
    using assms g by (cases rule: buy_cases; simp add: executeGraduation_fields)+
qed

lemma buy_events:
  assumes "buy w s v = Inr w'"
  shows "\<exists>price evs. getCurrentPrice w = Inr price \<and> 0 < price \<and> 0 < netOf v * 10 ^ 18 div price \<and>
      events w' = events w @ [Transfer 0 s (netOf v * 10 ^ 18 div price),
                              TokensMinted s (netOf v * 10 ^ 18 div price)] @ evs @
                   [Bought s v (netOf v * 10 ^ 18 div price) (feeOf v)]"
  using assms
proof (cases rule: buy_cases)
  case (below price)
  then show ?thesis by (intro exI[of _ price] exI[of _ "[]"]) simp
next
  case (graduating price w4)
  then show ?thesis
    by (intro exI[of _ price] exI[of _ "(if 0 < totalSupply (tok (minted w s v price)) * BURN_PERCENTAGE div FEE_DENOMINATOR
        then [Transfer (curveAddr w) 0 (totalSupply (tok (minted w s v price)) * BURN_PERCENTAGE div FEE_DENOMINATOR)]
        else []) @
       [Graduated (totalEthInvested (crv (minted w s v price))) (ethBalance (minted w s v price) (curveAddr w))]"])
      (simp add: executeGraduation_fields)
qed

section \<open>Evaluation of concrete states\<close>

lemmas const_defs = ether_def BASE_PRICE_def PLATFORM_FEE_def DEPLOYER_FEE_def FEE_DENOMINATOR_def
  GRADUATION_THRESHOLD_def BURN_PERCENTAGE_def MIN_BUY_def TOTAL_SUPPLY_def DEPLOYER_ALLOCATION_def
  DEPLOYER_ALLOCATION_PERCENT_def VESTING_DURATION_def TOKEN_CREATION_FEE_def UINT256_MAX_def
lemmas eval_defs = run_def exec_def createToken_def factory0_def chain0_def
  ERC20Token_constructor_def BondingCurve_constructor_def
  buy_def sell_def mint_def burn_def msg_value_def call_value_def move_eth_def calculateFees_def
  calculateBuyReturn_def calculateSellReturn_def getCurrentPrice_def checkGraduation_def executeGraduation_def getMarketCap_def
  ERC20_mint_def ERC20_burn_def ERC20_update_def ERC20_transfer_def ERC20_approve_def ERC20_spendAllowance_def burnFrom_def
  transferFrom_def approve_def transfer_def emit_def withdrawPlatformFees_def initialize_def
  transferOwnership_def claimVestedTokens_def calculateVestedAmount_def setMilestonesReached_def burnUnvestedTokens_def transferTokenOwnership_def
  checked_add_def checked_sub_def checked_mul_def checked_div_def unchecked_add_def unchecked_sub_def require_def Let_def


lemma createToken_w_created:
  "createToken factory0 chain0 300 TOKEN_CREATION_FEE ''Token'' ''TKN'' = Inr w_created"
  by (simp add: w_created_def eval_defs const_defs)

lemma w_live_facts:
  "platformFeesCollected (crv w_live) = 0" "totalEthInvested (crv w_live) = 0"
  "getCurrentPrice w_live = Inr (10 ^ 14)" "\<exists>w1. buy w_live 400 ether = Inr w1"
  by (simp_all add: w_live_def w_created_def eval_defs const_defs)

lemma w_bought_facts:
  "platformFeesCollected (crv w_bought) = 75 * 10 ^ 14" "totalEthInvested (crv w_bought) = 9925 * 10 ^ 14"
  "getCurrentPrice w_bought = Inr (10 ^ 14)" "\<exists>w2. sell w_bought 400 (10 ^ 21) = Inr w2"
  "curveAddr w_bought = 600" "balances (tok w_bought) 400 = 9925 * 10 ^ 18"
  "totalSupply (tok w_bought) = 9925 * 10 ^ 18" "ethBalance w_bought 600 = 10 ^ 18"
  "ethBalance w_bought 400 = 999 * 10 ^ 18" "\<not> hasGraduated (crv w_bought)"
  "transferFrom w_bought 600 400 600 (10 ^ 22) = Inl (CustomError ''ERC20InsufficientAllowance'')"
  by (simp_all add: w_bought_def w_live_def w_created_def eval_defs const_defs)

lemma w_graduated_facts:
  "hasGraduated (crv w_graduated)"
  by (simp add: w_graduated_def w_pregrad_def w_live_def w_created_def eval_defs const_defs)


section \<open>Vesting schedule\<close>

lemma vested_linear_le:
  assumes "e < VESTING_DURATION"
  shows "DEPLOYER_ALLOCATION * e div VESTING_DURATION \<le> DEPLOYER_ALLOCATION"
proof -
  have "DEPLOYER_ALLOCATION * e \<le> DEPLOYER_ALLOCATION * VESTING_DURATION"
    using assms by simp
  then have "DEPLOYER_ALLOCATION * e div VESTING_DURATION
      \<le> DEPLOYER_ALLOCATION * VESTING_DURATION div VESTING_DURATION"
    by (rule div_le_mono)
  also have "\<dots> = DEPLOYER_ALLOCATION" using assms by simp
  finally show ?thesis .
qed

lemma calculateVestedAmount_Inr:
  "calculateVestedAmount t now = Inr v \<longleftrightarrow>
     vestingStartTime t + VESTING_DURATION \<le> UINT256_MAX \<and>
     (if vestingStartTime t + VESTING_DURATION \<le> now
      then v = (if milestonesReached t then DEPLOYER_ALLOCATION else 0)
      else vestingStartTime t \<le> now \<and>
           DEPLOYER_ALLOCATION * (now - vestingStartTime t) \<le> UINT256_MAX \<and>
           v = DEPLOYER_ALLOCATION * (now - vestingStartTime t) div VESTING_DURATION)"
  by (auto simp: calculateVestedAmount_def bnd_eq_Inr)

lemma allocation_times_duration: "DEPLOYER_ALLOCATION * VESTING_DURATION \<le> UINT256_MAX"
  by (simp add: DEPLOYER_ALLOCATION_def TOTAL_SUPPLY_def DEPLOYER_ALLOCATION_PERCENT_def
      VESTING_DURATION_def UINT256_MAX_def)

text \<open>
  Claim C4, as amended. \<^verbatim>\<open>calculateVestedAmount\<close> never returns more than
  \<^verbatim>\<open>DEPLOYER_ALLOCATION\<close>, whatever the timestamp and whether or not the milestones are
  reached. For two timestamps \<open>t1 \<le> t2\<close> at which it returns, the amount at \<open>t1\<close> is at most
  the amount at \<open>t2\<close> provided the milestones are reached or \<open>t2\<close> lies before the end of the
  vesting period. It returns a value for every timestamp from \<^verbatim>\<open>vestingStartTime\<close> on (the end
  of the vesting period being representable); before \<^verbatim>\<open>vestingStartTime\<close> the subtraction
  reverts.
\<close>

theorem calculateVestedAmount_bounded_monotone:
  "(calculateVestedAmount t now = Inr v \<longrightarrow> v \<le> DEPLOYER_ALLOCATION) \<and>
   (calculateVestedAmount t t1 = Inr v1 \<and> calculateVestedAmount t t2 = Inr v2 \<and> t1 \<le> t2 \<and>
      (milestonesReached t \<or> t2 < vestingStartTime t + VESTING_DURATION) \<longrightarrow> v1 \<le> v2) \<and>
   (vestingStartTime t + VESTING_DURATION \<le> UINT256_MAX \<and> vestingStartTime t \<le> now \<longrightarrow>
      (\<exists>v. calculateVestedAmount t now = Inr v))"
proof (intro conjI impI)
  assume "calculateVestedAmount t now = Inr v"
  then show "v \<le> DEPLOYER_ALLOCATION"
    by (auto simp: calculateVestedAmount_Inr vested_linear_le split: if_splits)
next
  assume h: "calculateVestedAmount t t1 = Inr v1 \<and> calculateVestedAmount t t2 = Inr v2 \<and> t1 \<le> t2 \<and>
      (milestonesReached t \<or> t2 < vestingStartTime t + VESTING_DURATION)"
  show "v1 \<le> v2"
  proof (cases "vestingStartTime t + VESTING_DURATION \<le> t2")
    case True
    with h have "milestonesReached t" "v2 = DEPLOYER_ALLOCATION"
      by (auto simp: calculateVestedAmount_Inr)
    moreover from h have "v1 \<le> DEPLOYER_ALLOCATION"
      by (auto simp: calculateVestedAmount_Inr vested_linear_le split: if_splits)
    ultimately show ?thesis by simp
  next
    case False
    with h have e: "v1 = DEPLOYER_ALLOCATION * (t1 - vestingStartTime t) div VESTING_DURATION"
      "v2 = DEPLOYER_ALLOCATION * (t2 - vestingStartTime t) div VESTING_DURATION" "t1 \<le> t2"
      by (auto simp: calculateVestedAmount_Inr split: if_splits)
    have "DEPLOYER_ALLOCATION * (t1 - vestingStartTime t) \<le> DEPLOYER_ALLOCATION * (t2 - vestingStartTime t)"
      using e(3) by (simp add: diff_le_mono)
    then show ?thesis unfolding e(1,2) by (rule div_le_mono)
  qed
next
  assume h: "vestingStartTime t + VESTING_DURATION \<le> UINT256_MAX \<and> vestingStartTime t \<le> now"
  show "\<exists>v. calculateVestedAmount t now = Inr v"
  proof (cases "vestingStartTime t + VESTING_DURATION \<le> now")
    case True
    with h show ?thesis by (simp add: calculateVestedAmount_Inr)
  next
    case False
    then have "now - vestingStartTime t \<le> VESTING_DURATION" by simp
    then have "DEPLOYER_ALLOCATION * (now - vestingStartTime t) \<le> DEPLOYER_ALLOCATION * VESTING_DURATION"
      by simp
    with allocation_times_duration
    have "DEPLOYER_ALLOCATION * (now - vestingStartTime t) \<le> UINT256_MAX" by (rule order_trans[rotated])
    with h False show ?thesis by (simp add: calculateVestedAmount_Inr)
  qed
qed

theorem calculateVestedAmount_bounded_monotone_witness:
  "calculateVestedAmount (tok w_created) 2000 = Inr 1286008230452674897119 \<and>
   calculateVestedAmount (tok w_created) 3000 = Inr 2572016460905349794238 \<and>
   (1286008230452674897119::nat) \<le> DEPLOYER_ALLOCATION \<and>
   (1286008230452674897119::nat) \<le> 2572016460905349794238 \<and>
   (\<exists>v. calculateVestedAmount (tok w_created) 2000 = Inr v)"
  using calculateVestedAmount_bounded_monotone
    [of "tok w_created" 2000 1286008230452674897119 2000 1286008230452674897119 3000 2572016460905349794238]
  by (simp add: w_created_def eval_defs const_defs)


text \<open>
  Claim C4 as stated fails when the milestones are not reached: one second before the end
  of the vesting period almost the whole allocation is vested, at the end nothing is.
\<close>

theorem calculateVestedAmount_not_monotone:
  "calculateVestedAmount (tok w_created) (1000 + VESTING_DURATION - 1) = Inr 19999998713991769547325102 \<and>
   calculateVestedAmount (tok w_created) (1000 + VESTING_DURATION) = Inr 0 \<and>
   1000 + VESTING_DURATION - 1 \<le> 1000 + VESTING_DURATION \<and>
   vestingStartTime (tok w_created) \<le> 1000 + VESTING_DURATION - 1 \<and>
   \<not> (19999998713991769547325102 \<le> (0::nat))"
  by (simp add: w_created_def eval_defs const_defs)


lemma half_duration_amount:
  "DEPLOYER_ALLOCATION * (VESTING_DURATION div 2) div VESTING_DURATION = DEPLOYER_ALLOCATION div 2"
  by (simp add: DEPLOYER_ALLOCATION_def TOTAL_SUPPLY_def DEPLOYER_ALLOCATION_PERCENT_def VESTING_DURATION_def)

lemma calculateVestedAmount_half:
  assumes "vestingStartTime t + VESTING_DURATION \<le> UINT256_MAX"
  shows "calculateVestedAmount t (vestingStartTime t + VESTING_DURATION div 2) = Inr (DEPLOYER_ALLOCATION div 2)"
proof -
  have lt: "\<not> vestingStartTime t + VESTING_DURATION \<le> vestingStartTime t + VESTING_DURATION div 2"
    by (simp add: VESTING_DURATION_def)
  have "DEPLOYER_ALLOCATION * (VESTING_DURATION div 2) \<le> DEPLOYER_ALLOCATION * VESTING_DURATION"
    by simp
  with allocation_times_duration
  have le: "DEPLOYER_ALLOCATION * (VESTING_DURATION div 2) \<le> UINT256_MAX" by (rule order_trans[rotated])
  show ?thesis
    using assms lt le by (simp add: calculateVestedAmount_Inr half_duration_amount)
qed

text \<open>
  Claim C7. Half-way through the vesting period the deployer's first claim (nothing has
  been vested before) succeeds, mints exactly \<^verbatim>\<open>DEPLOYER_ALLOCATION / 2\<close> to the deployer and
  sets \<^verbatim>\<open>vestedAmount\<close> to that amount; a second claim at the same timestamp returns
  the world it was called in: nothing is minted, no storage changes, no event is emitted, and
  it does not fail. The deployer is not the zero address (the constructor checks it), the
  end of the vesting period and the new total supply are representable, and the deployer's
  balance is at most the total supply, as in every ERC20 ledger.
\<close>

theorem claimVestedTokens_half_duration:
  assumes "d = ERC20Token.deployer (tok w)" and "d \<noteq> 0"
    and "now = vestingStartTime (tok w) + VESTING_DURATION div 2"
    and "vestedAmount (tok w) = 0"
    and "vestingStartTime (tok w) + VESTING_DURATION \<le> UINT256_MAX"
    and "totalSupply (tok w) + DEPLOYER_ALLOCATION div 2 \<le> UINT256_MAX"
    and "balances (tok w) d \<le> totalSupply (tok w)"
  shows "\<exists>w1. claimVestedTokens w d now = Inr w1 \<and>
           vestedAmount (tok w1) = DEPLOYER_ALLOCATION div 2 \<and>
           balances (tok w1) d = balances (tok w) d + DEPLOYER_ALLOCATION div 2 \<and>
           totalSupply (tok w1) = totalSupply (tok w) + DEPLOYER_ALLOCATION div 2 \<and>
           events w1 = events w @ [Transfer 0 d (DEPLOYER_ALLOCATION div 2),
                                   DeployerTokensVested (DEPLOYER_ALLOCATION div 2)] \<and>
           claimVestedTokens w1 d now = Inr w1"
proof -
  define w1 where "w1 = w\<lparr>tok := (tok w)\<lparr>vestedAmount := DEPLOYER_ALLOCATION div 2,
                     totalSupply := totalSupply (tok w) + (DEPLOYER_ALLOCATION div 2 - vestedAmount (tok w)),
                     balances := (balances (tok w))
                       (d := unchecked_add (balances (tok w) d) (DEPLOYER_ALLOCATION div 2 - vestedAmount (tok w)))\<rparr>,
                   events := events w @ [Transfer 0 d (DEPLOYER_ALLOCATION div 2 - vestedAmount (tok w)),
                                         DeployerTokensVested (DEPLOYER_ALLOCATION div 2 - vestedAmount (tok w))]\<rparr>"
  have pos: "0 < DEPLOYER_ALLOCATION div 2"
    by (simp add: DEPLOYER_ALLOCATION_def TOTAL_SUPPLY_def DEPLOYER_ALLOCATION_PERCENT_def)
  have nv: "calculateVestedAmount (tok w) now = Inr (DEPLOYER_ALLOCATION div 2)"
    unfolding assms(3) using assms(5) by (rule calculateVestedAmount_half)
  have first: "claimVestedTokens w d now = Inr w1"
    unfolding claimVestedTokens_eq[OF nv] using assms pos by (simp add: w1_def)
  have "balances (tok w) d + DEPLOYER_ALLOCATION div 2 \<le> UINT256_MAX"
    using assms(6,7) by simp
  then have bal: "unchecked_add (balances (tok w) d) (DEPLOYER_ALLOCATION div 2)
      = balances (tok w) d + DEPLOYER_ALLOCATION div 2"
    by (rule unchecked_add_exact)
  have f: "vestedAmount (tok w1) = DEPLOYER_ALLOCATION div 2"
    "balances (tok w1) d = balances (tok w) d + DEPLOYER_ALLOCATION div 2"
    "totalSupply (tok w1) = totalSupply (tok w) + DEPLOYER_ALLOCATION div 2"
    "events w1 = events w @ [Transfer 0 d (DEPLOYER_ALLOCATION div 2),
                                   DeployerTokensVested (DEPLOYER_ALLOCATION div 2)]"
    "vestingStartTime (tok w1) = vestingStartTime (tok w)"
    "ERC20Token.deployer (tok w1) = d"
    using assms(1,4) bal by (simp_all add: w1_def)
  have nv1: "calculateVestedAmount (tok w1) now = Inr (DEPLOYER_ALLOCATION div 2)"
    unfolding assms(3) f(5)[symmetric] using assms(5) f(5) by (intro calculateVestedAmount_half) simp
  have second: "claimVestedTokens w1 d now = Inr w1"
    unfolding claimVestedTokens_eq[OF nv1] using f by simp
  from first second f show ?thesis by blast
qed

theorem claimVestedTokens_half_duration_witness:
  "\<exists>w1. claimVestedTokens w_created 300 7777000 = Inr w1 \<and>
           vestedAmount (tok w1) = 10 ^ 25 \<and>
           balances (tok w1) 300 = 10 ^ 25 \<and>
           totalSupply (tok w1) = 10 ^ 25 \<and>
           events w1 = events w_created @ [Transfer 0 300 (10 ^ 25), DeployerTokensVested (10 ^ 25)] \<and>
           claimVestedTokens w1 300 7777000 = Inr w1"
  using claimVestedTokens_half_duration[of 300 w_created 7777000]
  by (simp add: w_created_def eval_defs const_defs)

section \<open>The milestone flag\<close>

lemma w_owned_facts:
  "owner (tok w_owned) = 700" "\<not> milestonesReached (tok w_owned)"
  "milestonesReached (tok (exec w_owned (700, 2000, SetMilestonesReached)))"
  by (simp_all add: w_owned_def w_created_def eval_defs const_defs)

lemma w_reached_facts:
  "owner (tok w_reached) = 700" "milestonesReached (tok w_reached)"
  by (simp_all add: w_reached_def w_owned_def w_created_def eval_defs const_defs)

text \<open>
  Claim C10. \<^verbatim>\<open>setMilestonesReached\<close> fails with "Only owner" for every caller but the owner;
  a transaction that turns the flag on is a \<^verbatim>\<open>setMilestonesReached\<close> sent by the owner;
  once the flag is on, no sequence of transactions turns it off; and calling
  \<^verbatim>\<open>setMilestonesReached\<close> with the flag on changes no storage: the world is the same but for
  one more \<^verbatim>\<open>MilestonesReached\<close> event in the log.
\<close>

theorem milestonesReached_latch:
  "(sender \<noteq> owner (tok w) \<longrightarrow> setMilestonesReached w sender = Inl (Revert ''Only owner'')) \<and>
   (\<not> milestonesReached (tok w) \<and> milestonesReached (tok (exec w (s, now, c))) \<longrightarrow>
      c = SetMilestonesReached \<and> s = owner (tok w)) \<and>
   (milestonesReached (tok w) \<longrightarrow> milestonesReached (tok (run w txs))) \<and>
   (milestonesReached (tok w) \<and> setMilestonesReached w sender = Inr w' \<longrightarrow>
      w' = w\<lparr>events := events w @ [MilestonesReached]\<rparr>)"
proof -
  have 1: "setMilestonesReached w sender = Inl (Revert ''Only owner'')" if "sender \<noteq> owner (tok w)"
    using that by (simp add: setMilestonesReached_def require_def)
  have 2: "c = SetMilestonesReached \<and> s = owner (tok w)"
    if h: "\<not> milestonesReached (tok w) \<and> milestonesReached (tok (exec w (s, now, c)))"
  proof (cases "step w s now c")
    case (Inl e)
    with h show ?thesis by (simp add: exec_def)
  next
    case (Inr w1)
    with h have "milestonesReached (tok w1)" by (simp add: exec_def)
    with Inr h show ?thesis by (blast dest: step_milestones_set)
  qed
  have 3: "milestonesReached (tok (run w txs))" if "milestonesReached (tok w)"
    using that run_frame[of w txs] by (simp add: frame_def)
  have 4: "w' = w\<lparr>events := events w @ [MilestonesReached]\<rparr>"
    if h: "milestonesReached (tok w) \<and> setMilestonesReached w sender = Inr w'"
  proof -
    from h have "(tok w)\<lparr>milestonesReached := True\<rparr> = tok w" by simp
    with h show ?thesis
      by (auto simp: setMilestonesReached_def bnd_eq_Inr emit_def)
  qed
  from 1 2 3 4 show ?thesis by blast
qed


theorem milestonesReached_latch_witness:
  "400 \<noteq> owner (tok w_owned) \<and>
   setMilestonesReached w_owned 400 = Inl (Revert ''Only owner'') \<and>
   \<not> milestonesReached (tok w_owned) \<and>
   milestonesReached (tok (exec w_owned (700, 2000, SetMilestonesReached))) \<and>
   700 = owner (tok w_owned) \<and>
   milestonesReached (tok w_reached) \<and>
   milestonesReached (tok (run w_reached [(300, 3000, ClaimVestedTokens), (300, 4000, TransferTokenOwnership 600)])) \<and>
   (\<exists>w'. setMilestonesReached w_reached 700 = Inr w' \<and>
         w' = w_reached\<lparr>events := events w_reached @ [MilestonesReached]\<rparr>)"
proof -
  have r: "setMilestonesReached w_reached 700 =
      Inr (emit (w_reached\<lparr>tok := (tok w_reached)\<lparr>milestonesReached := True\<rparr>\<rparr>) MilestonesReached)"
    by (simp add: setMilestonesReached_def require_def w_reached_facts)
  show ?thesis
    using milestonesReached_latch[of 400 w_owned 700 2000 SetMilestonesReached "[]" w_owned]
      milestonesReached_latch[of 700 w_reached 0 0 SetMilestonesReached
        "[(300, 3000, ClaimVestedTokens), (300, 4000, TransferTokenOwnership 600)]"
        "emit (w_reached\<lparr>tok := (tok w_reached)\<lparr>milestonesReached := True\<rparr>\<rparr>) MilestonesReached"]
    by (simp add: w_owned_facts w_reached_facts r)
qed


section \<open>Fees\<close>

text \<open>
  Claim C5. A successful \<^verbatim>\<open>buy\<close> with \<^verbatim>\<open>msg.value\<close> \<open>v\<close> adds \<open>v * 75 / 10000\<close> (truncated) to
  \<^verbatim>\<open>platformFeesCollected\<close>, adds the rest of \<open>v\<close> to \<^verbatim>\<open>totalEthInvested\<close>, and converts that
  rest, not \<open>v\<close>, into tokens: the fee is taken on the gross input before the conversion. A
  successful \<^verbatim>\<open>sell\<close> of \<open>n\<close> tokens first converts them into the gross return
  \<open>n * price / 10 ^ 18\<close> and takes \<open>75 / 10000\<close> of that: the fee is taken after the conversion.
  The \<^verbatim>\<open>Bought\<close> and \<^verbatim>\<open>Sold\<close> events carry these amounts. Once \<^verbatim>\<open>hasGraduated\<close> is set,
  \<^verbatim>\<open>_calculateFees\<close> returns its argument with both fees zero.
\<close>

theorem fee_on_gross_amounts:
  "(buy w s v = Inr w' \<longrightarrow>
      platformFeesCollected (crv w') = platformFeesCollected (crv w) + v * PLATFORM_FEE div FEE_DENOMINATOR \<and>
      totalEthInvested (crv w') = totalEthInvested (crv w) + (v - v * PLATFORM_FEE div FEE_DENOMINATOR) \<and>
      (\<exists>price. getCurrentPrice w = Inr price \<and>
         last (events w') = Bought s v ((v - v * PLATFORM_FEE div FEE_DENOMINATOR) * 10 ^ 18 div price)
                              (v * PLATFORM_FEE div FEE_DENOMINATOR))) \<and>
   (sell w s n = Inr w' \<longrightarrow>
      (\<exists>price. getCurrentPrice w = Inr price \<and>
         platformFeesCollected (crv w') =
           platformFeesCollected (crv w) + (n * price div 10 ^ 18) * PLATFORM_FEE div FEE_DENOMINATOR \<and>
         last (events w') =
           Sold s (n * price div 10 ^ 18 - (n * price div 10 ^ 18) * PLATFORM_FEE div FEE_DENOMINATOR) n
                  ((n * price div 10 ^ 18) * PLATFORM_FEE div FEE_DENOMINATOR))) \<and>
   (hasGraduated (crv w) \<longrightarrow> calculateFees w amount = Inr (amount, 0, 0)) \<and>
   PLATFORM_FEE = 75 \<and> FEE_DENOMINATOR = 10000"
proof -
  have 1: "platformFeesCollected (crv w') = platformFeesCollected (crv w) + feeOf v \<and>
      totalEthInvested (crv w') = totalEthInvested (crv w) + netOf v \<and>
      (\<exists>price. getCurrentPrice w = Inr price \<and>
         last (events w') = Bought s v (netOf v * 10 ^ 18 div price) (feeOf v))"
    if b: "buy w s v = Inr w'"
    using buy_crv(1,2)[OF b] buy_events[OF b] by auto
  have 2: "\<exists>price. getCurrentPrice w = Inr price \<and>
         platformFeesCollected (crv w') =
           platformFeesCollected (crv w) + feeOf (n * price div 10 ^ 18) \<and>
         last (events w') =
           Sold s (netOf (n * price div 10 ^ 18)) n (feeOf (n * price div 10 ^ 18))"
    if b: "sell w s n = Inr w'"
    using sellD[OF b] by auto
  have 3: "calculateFees w amount = Inr (amount, 0, 0)" if "hasGraduated (crv w)"
    using that by (simp add: calculateFees_eq)
  from 1 2 3 show ?thesis by (simp add: PLATFORM_FEE_def FEE_DENOMINATOR_def)
qed


theorem fee_on_gross_amounts_witness:
  "\<exists>w1 w2. buy w_live 400 ether = Inr w1 \<and>
     platformFeesCollected (crv w1) = 75 * 10 ^ 14 \<and>
     totalEthInvested (crv w1) = 9925 * 10 ^ 14 \<and>
     last (events w1) = Bought 400 ether (9925 * 10 ^ 18) (75 * 10 ^ 14) \<and>
     sell w_bought 400 (10 ^ 21) = Inr w2 \<and>
     platformFeesCollected (crv w2) = 75 * 10 ^ 14 + 75 * 10 ^ 13 \<and>
     last (events w2) = Sold 400 (9925 * 10 ^ 13) (10 ^ 21) (75 * 10 ^ 13) \<and>
     hasGraduated (crv w_graduated) \<and>
     calculateFees w_graduated ether = Inr (ether, 0, 0)"
proof -
  from w_live_facts(4) obtain w1 where w1: "buy w_live 400 ether = Inr w1" by blast
  from w_bought_facts(4) obtain w2 where w2: "sell w_bought 400 (10 ^ 21) = Inr w2" by blast
  from fee_on_gross_amounts[where w=w_live and s=400 and v=ether and w'=w1] w1
  have a: "platformFeesCollected (crv w1) = 75 * 10 ^ 14 \<and>
     totalEthInvested (crv w1) = 9925 * 10 ^ 14 \<and>
     last (events w1) = Bought 400 ether (9925 * 10 ^ 18) (75 * 10 ^ 14)"
    by (simp add: w_live_facts const_defs)
  from fee_on_gross_amounts[where w=w_bought and s=400 and n="10 ^ 21" and w'=w2] w2
  have b: "platformFeesCollected (crv w2) = 75 * 10 ^ 14 + 75 * 10 ^ 13 \<and>
     last (events w2) = Sold 400 (9925 * 10 ^ 13) (10 ^ 21) (75 * 10 ^ 13)"
    by (simp add: w_bought_facts const_defs)
  from fee_on_gross_amounts[where w=w_graduated and amount=ether] w_graduated_facts
  have c: "calculateFees w_graduated ether = Inr (ether, 0, 0)" by simp
  from w1 w2 a b c w_graduated_facts show ?thesis by blast
qed


section \<open>Price and tokens of a purchase\<close>

lemma buy_zero_output:
  assumes "v \<le> ethBalance w s" "MIN_BUY \<le> v" "\<not> hasGraduated (crv w)"
    "v * PLATFORM_FEE \<le> UINT256_MAX" "getCurrentPrice w = Inr price" "0 < price"
    "netOf v * 10 ^ 18 \<le> UINT256_MAX" "netOf v * 10 ^ 18 div price = 0"
  shows "buy w s v = Inl (Revert ''Insufficient ETH'')"
proof -
  have f: "calculateFees (move_eth w s (curveAddr w) v) v = Inr (netOf v, feeOf v, 0)"
    using assms(3,4) by (simp add: calculateFees_eq)
  have r: "calculateBuyReturn (move_eth w s (curveAddr w) v) (netOf v) = Inr 0"
    using assms(5-8) by (simp add: calculateBuyReturn_def checked_mul_def checked_div_def)
  show ?thesis
    using assms(1-3) by (simp add: buy_def msg_value_def require_def f r)
qed

text \<open>
  Claim C1, as amended. The price is \<^verbatim>\<open>BASE_PRICE\<close> when the token's total supply is zero, and
  \<^verbatim>\<open>totalEthInvested * 10 ^ 18 / totalSupply\<close> otherwise (the multiplication is checked). A
  successful \<^verbatim>\<open>buy\<close> found a positive price, minted \<open>net * 10 ^ 18 / price\<close> tokens to the
  buyer, where \<open>net\<close> is \<^verbatim>\<open>msg.value\<close> less the fee, and that number is positive. A \<^verbatim>\<open>buy\<close>
  that passes the earlier checks at a positive price fails with "Insufficient ETH" when
  \<open>net * 10 ^ 18 / price\<close> is zero.
\<close>

theorem buy_price_and_tokens:
  "getCurrentPrice w =
     (if totalSupply (tok w) = 0 then Inr BASE_PRICE
      else if totalEthInvested (crv w) * 10 ^ 18 \<le> UINT256_MAX
      then Inr (totalEthInvested (crv w) * 10 ^ 18 div totalSupply (tok w))
      else Inl (Panic 17)) \<and>
   (buy w s v = Inr w' \<longrightarrow>
      (\<exists>price. getCurrentPrice w = Inr price \<and> 0 < price \<and>
         0 < (v - v * PLATFORM_FEE div FEE_DENOMINATOR) * 10 ^ 18 div price \<and>
         TokensMinted s ((v - v * PLATFORM_FEE div FEE_DENOMINATOR) * 10 ^ 18 div price) \<in> set (events w') \<and>
         last (events w') = Bought s v ((v - v * PLATFORM_FEE div FEE_DENOMINATOR) * 10 ^ 18 div price)
                              (v * PLATFORM_FEE div FEE_DENOMINATOR))) \<and>
   (v \<le> ethBalance w s \<and> MIN_BUY \<le> v \<and> \<not> hasGraduated (crv w) \<and>
    v * PLATFORM_FEE \<le> UINT256_MAX \<and> getCurrentPrice w = Inr price \<and> 0 < price \<and>
    (v - v * PLATFORM_FEE div FEE_DENOMINATOR) * 10 ^ 18 \<le> UINT256_MAX \<and>
    (v - v * PLATFORM_FEE div FEE_DENOMINATOR) * 10 ^ 18 div price = 0
    \<longrightarrow> buy w s v = Inl (Revert ''Insufficient ETH''))"
proof -
  have 1: "getCurrentPrice w =
     (if totalSupply (tok w) = 0 then Inr BASE_PRICE
      else if totalEthInvested (crv w) * 10 ^ 18 \<le> UINT256_MAX
      then Inr (totalEthInvested (crv w) * 10 ^ 18 div totalSupply (tok w))
      else Inl (Panic 17))"
    by (simp add: getCurrentPrice_eq)
  have 2: "\<exists>price. getCurrentPrice w = Inr price \<and> 0 < price \<and>
         0 < netOf v * 10 ^ 18 div price \<and>
         TokensMinted s (netOf v * 10 ^ 18 div price) \<in> set (events w') \<and>
         last (events w') = Bought s v (netOf v * 10 ^ 18 div price) (feeOf v)"
    if b: "buy w s v = Inr w'"
    using buy_events[OF b] by auto
  from 1 2 buy_zero_output[of v w s price] show ?thesis by blast
qed


lemma w_scarce_facts:
  "MIN_BUY \<le> ethBalance w_scarce 400" "\<not> hasGraduated (crv w_scarce)"
  "getCurrentPrice w_scarce = Inr (9925 * 10 ^ 32)" "totalSupply (tok w_scarce) = 1"
  by (simp_all add: w_scarce_def w_live_def w_created_def eval_defs const_defs)

theorem buy_price_and_tokens_witness:
  "getCurrentPrice w_live = Inr BASE_PRICE \<and>
   (\<exists>w1. buy w_live 400 ether = Inr w1 \<and>
      TokensMinted 400 (9925 * 10 ^ 18) \<in> set (events w1) \<and>
      last (events w1) = Bought 400 ether (9925 * 10 ^ 18) (75 * 10 ^ 14)) \<and>
   getCurrentPrice w_scarce = Inr (9925 * 10 ^ 32) \<and>
   buy w_scarce 400 MIN_BUY = Inl (Revert ''Insufficient ETH'')"
proof -
  from w_live_facts(4) obtain w1 where w1: "buy w_live 400 ether = Inr w1" by blast
  from buy_price_and_tokens[where w=w_live and s=400 and v=ether and w'=w1] w1
  have a: "TokensMinted 400 (9925 * 10 ^ 18) \<in> set (events w1) \<and>
      last (events w1) = Bought 400 ether (9925 * 10 ^ 18) (75 * 10 ^ 14)"
    by (simp add: w_live_facts const_defs)
  from buy_price_and_tokens[where w=w_scarce and s=400 and v=MIN_BUY and price="9925 * 10 ^ 32"]
  have b: "buy w_scarce 400 MIN_BUY = Inl (Revert ''Insufficient ETH'')"
    using w_scarce_facts by (simp add: const_defs)
  from w1 a b w_live_facts(3) w_scarce_facts(3) show ?thesis by (auto simp: BASE_PRICE_def)
qed

text \<open>
  Claim C1 as stated fails in both directions. In \<open>w_claimed\<close> nothing is invested and the
  deployer's vested tokens make the supply positive: the price is 0, not \<^verbatim>\<open>BASE_PRICE\<close>, and
  \<^verbatim>\<open>buy\<close> stops at the division by the price. In \<open>w_burnt\<close> the supply is zero while
  \<^verbatim>\<open>totalEthInvested\<close> is not: the price is \<^verbatim>\<open>BASE_PRICE\<close>.
\<close>

theorem buy_price_at_zero_invested:
  "totalEthInvested (crv w_claimed) = 0 \<and> getCurrentPrice w_claimed = Inr 0 \<and>
   getCurrentPrice w_claimed \<noteq> Inr BASE_PRICE \<and>
   buy w_claimed 400 ether = Inl (Panic 18) \<and>
   totalEthInvested (crv w_burnt) = 9925 * 10 ^ 14 \<and> totalSupply (tok w_burnt) = 0 \<and>
   getCurrentPrice w_burnt = Inr BASE_PRICE"
  by (simp add: w_claimed_def w_burnt_def w_live_def w_created_def eval_defs const_defs)

section \<open>Successive purchases\<close>

text \<open>
  Claim C8. When a list of purchases succeeds, every prefix of it succeeds, and after the
  first \<open>k\<close> purchases \<^verbatim>\<open>totalEthInvested\<close> is its initial value (zero for a new curve) plus the
  sum of the net amounts \<open>v - v * 75 / 10000\<close> of these \<open>k\<close> purchases, exactly.
\<close>

theorem buys_accumulate_net:
  "buys w bs = Inr w' \<Longrightarrow>
     \<exists>wk. buys w (take k bs) = Inr wk \<and>
          totalEthInvested (crv wk) = totalEthInvested (crv w) + (\<Sum>(s, v) \<leftarrow> take k bs. netOf v)"
proof (induction bs arbitrary: w k)
  case Nil
  then show ?case by simp
next
  case (Cons b bs)
  obtain s v where b: "b = (s, v)" by (cases b)
  from Cons.prems b obtain w1 where w1: "buy w s v = Inr w1" and r: "buys w1 bs = Inr w'"
    by (auto simp: bnd_eq_Inr)
  show ?case
  proof (cases k)
    case 0
    then show ?thesis by simp
  next
    case (Suc j)
    from Cons.IH[OF r, of j] obtain wk where
      "buys w1 (take j bs) = Inr wk"
      "totalEthInvested (crv wk) = totalEthInvested (crv w1) + (\<Sum>(s, v) \<leftarrow> take j bs. netOf v)"
      by blast
    with w1 buy_crv(2)[OF w1] Suc b show ?thesis by simp
  qed
qed



lemma w_live_buys:
  "\<exists>w2. buys w_live [(400, ether), (400, 2 * ether)] = Inr w2"
  by (simp add: w_live_def w_created_def eval_defs const_defs)

theorem buys_accumulate_net_witness:
  "\<exists>wk. buys w_live (take 2 [(400, ether), (400, 2 * ether)]) = Inr wk \<and>
        totalEthInvested (crv wk) = 9925 * 10 ^ 14 + 1985 * 10 ^ 15"
proof -
  from w_live_buys obtain w2 where "buys w_live [(400, ether), (400, 2 * ether)] = Inr w2" by blast
  from buys_accumulate_net[OF this, of 2] show ?thesis
    by (simp add: w_live_facts(2) const_defs)
qed

section \<open>Selling\<close>

text \<open>
  The conditions under which \<^verbatim>\<open>sell\<close> succeeds do not compare the net return with
  \<^verbatim>\<open>totalEthInvested\<close>.
\<close>

lemma sell_succeeds:
  assumes n: "0 < n" and g: "\<not> hasGraduated (crv w)"
    and t: "transferFrom w (curveAddr w) s (curveAddr w) n = Inr w1"
    and h: "n \<le> balances (tok w1) (curveAddr w)"
    and p: "getCurrentPrice w = Inr price" and m: "n * price \<le> UINT256_MAX"
    and f: "(n * price div 10 ^ 18) * PLATFORM_FEE \<le> UINT256_MAX"
    and e: "netOf (n * price div 10 ^ 18) \<le> ethBalance w (curveAddr w)"
    and c: "platformFeesCollected (crv w) + feeOf (n * price div 10 ^ 18) \<le> UINT256_MAX"
    and r: "\<not> rejectsEth w s"
  shows "\<exists>w'. sell w s n = Inr w'"
proof -
  note tf = transferFrom_fields[OF t]
  have p1: "getCurrentPrice w1 = Inr price"
    using p by (simp add: getCurrentPrice_cong2[OF tf(6) tf(1)])
  have r1: "calculateSellReturn w1 n = Inr (n * price div 10 ^ 18)"
    using p1 m by (simp add: calculateSellReturn_Inr)
  have f1: "calculateFees w1 (n * price div 10 ^ 18) =
      Inr (netOf (n * price div 10 ^ 18), feeOf (n * price div 10 ^ 18), 0)"
    using g f by (simp add: calculateFees_Inr tf(1))
  have b: "\<exists>w2. burn (w1\<lparr>crv := (crv w)\<lparr>platformFeesCollected :=
      platformFeesCollected (crv w) + feeOf (n * price div 10 ^ 18)\<rparr>\<rparr>) (curveAddr w) n = Inr w2 \<and>
      ethBalance w2 = ethBalance w \<and> rejectsEth w2 = rejectsEth w \<and> curveAddr w2 = curveAddr w"
    using h tf(13) tf(2,3,4) by (simp add: burn_Inr)
  then obtain w2 where b: "burn (w1\<lparr>crv := (crv w)\<lparr>platformFeesCollected :=
      platformFeesCollected (crv w) + feeOf (n * price div 10 ^ 18)\<rparr>\<rparr>) (curveAddr w) n = Inr w2"
    and w2: "ethBalance w2 = ethBalance w" "rejectsEth w2 = rejectsEth w" "curveAddr w2 = curveAddr w"
    by blast
  have "\<exists>w'. sell w s n = Inr w'"
  proof (cases "netOf (n * price div 10 ^ 18) < totalEthInvested (crv w2)")
    case True
    show ?thesis
      unfolding sell_def
      using n g t r1 f1 e c b r True
      by (simp add: tf(1,2,3) checked_add_def call_value_fst w2 Let_def require_def)
  next
    case False
    show ?thesis
      unfolding sell_def
      using n g t r1 f1 e c b r False
      by (simp add: tf(1,2,3) checked_add_def call_value_fst w2 Let_def require_def)
  qed
  then show ?thesis by blast
qed

text \<open>
  With the price a ratio of \<^verbatim>\<open>totalEthInvested\<close> to the total supply, the net return exceeds
  \<^verbatim>\<open>totalEthInvested\<close> only when more tokens are sold than the total supply records.
\<close>

lemma sell_zero_branch_supply:
  assumes "sell w s n = Inr w'" and "getCurrentPrice w = Inr price"
    and "totalEthInvested (crv w) < netOf (n * price div 10 ^ 18)"
  shows "totalSupply (tok w) < n"
proof (rule ccontr)
  assume "\<not> totalSupply (tok w) < n"
  then have le: "n \<le> totalSupply (tok w)" by simp
  from sellD[OF assms(1)] have "0 < n" by blast
  with le have pos: "totalSupply (tok w) \<noteq> 0" by simp
  with assms(2) have price: "price = totalEthInvested (crv w) * 10 ^ 18 div totalSupply (tok w)"
    by (simp add: getCurrentPrice_eq split: if_splits)
  have "n * price \<le> totalSupply (tok w) * price" using le by (rule mult_le_mono1)
  also have "\<dots> \<le> totalEthInvested (crv w) * 10 ^ 18" unfolding price by simp
  finally have "n * price div 10 ^ 18 \<le> totalEthInvested (crv w) * 10 ^ 18 div 10 ^ 18"
    by (rule div_le_mono)
  then have "n * price div 10 ^ 18 \<le> totalEthInvested (crv w)" by simp
  then have "netOf (n * price div 10 ^ 18) \<le> totalEthInvested (crv w)" by simp
  with assms(3) show False by simp
qed

lemma w_short_facts:
  "curveAddr w_short = 600" "\<not> hasGraduated (crv w_short)"
  "getCurrentPrice w_short = Inr (10 ^ 16)"
  "totalEthInvested (crv w_short) = 9925 * 10 ^ 14"
  "platformFeesCollected (crv w_short) = 75 * 10 ^ 14"
  "ethBalance w_short 600 = 10 ^ 18" "ethBalance w_short 400 = 999 * 10 ^ 18"
  "\<not> rejectsEth w_short 400"
  "balances (tok w_short) 400 = 9925 * 10 ^ 18" "totalSupply (tok w_short) = 9925 * 10 ^ 16"
  "\<exists>w1. transferFrom w_short 600 400 600 (1004 * 10 ^ 17) = Inr w1 \<and>
        1004 * 10 ^ 17 \<le> balances (tok w1) 600"
  by (simp_all add: w_short_def w_bought_def w_live_def w_created_def eval_defs const_defs)

text \<open>
  Claim C9. In any state, after a successful \<^verbatim>\<open>sell\<close> of \<open>n\<close> tokens by an account other than the
  curve, with \<open>netReturn\<close> the gross return less the fee: \<^verbatim>\<open>totalEthInvested\<close> is zero if
  \<open>netReturn\<close> exceeds it and is reduced by \<open>netReturn\<close> otherwise; the curve has paid
  \<open>netReturn\<close> ether to the seller; the seller's token balance is reduced by \<open>n\<close>, and so is the
  total supply (by the token's unchecked subtraction, which is exact when \<open>n\<close> is at most the
  total supply, a 256-bit value). And the sale does not fail from underflow: whether or not \<open>netReturn\<close>
  exceeds \<^verbatim>\<open>totalEthInvested\<close>, \<^verbatim>\<open>sell\<close> succeeds, with \<^verbatim>\<open>totalEthInvested\<close> set as above,
  whenever the amount is positive, the curve has not graduated, the token transfer succeeds
  and leaves the curve \<open>n\<close> tokens to burn, the price, the return and the fees are computed
  without overflow, the curve holds \<open>netReturn\<close> ether and the seller accepts ether.
\<close>

theorem sell_effect:
  "(sell w s n = Inr w' \<and> s \<noteq> curveAddr w \<longrightarrow>
      (\<exists>price. getCurrentPrice w = Inr price \<and>
        (let gross = n * price div 10 ^ 18;
             netReturn = gross - gross * PLATFORM_FEE div FEE_DENOMINATOR
         in totalEthInvested (crv w') =
              (if netReturn > totalEthInvested (crv w) then 0 else totalEthInvested (crv w) - netReturn) \<and>
            netReturn \<le> ethBalance w (curveAddr w) \<and>
            ethBalance w' (curveAddr w) = ethBalance w (curveAddr w) - netReturn \<and>
            ethBalance w' s = ethBalance w s + netReturn \<and>
            n \<le> balances (tok w) s \<and>
            balances (tok w') s = balances (tok w) s - n \<and>
            totalSupply (tok w') = unchecked_sub (totalSupply (tok w)) n \<and>
            (n \<le> totalSupply (tok w) \<and> totalSupply (tok w) \<le> UINT256_MAX \<longrightarrow>
               totalSupply (tok w') = totalSupply (tok w) - n) \<and>
            last (events w') = Sold s netReturn n (gross * PLATFORM_FEE div FEE_DENOMINATOR)))) \<and>
   (0 < n \<and> \<not> hasGraduated (crv w) \<and>
    transferFrom w (curveAddr w) s (curveAddr w) n = Inr w1 \<and>
    n \<le> balances (tok w1) (curveAddr w) \<and>
    getCurrentPrice w = Inr price \<and> n * price \<le> UINT256_MAX \<and>
    (n * price div 10 ^ 18) * PLATFORM_FEE \<le> UINT256_MAX \<and>
    (n * price div 10 ^ 18) - (n * price div 10 ^ 18) * PLATFORM_FEE div FEE_DENOMINATOR
       \<le> ethBalance w (curveAddr w) \<and>
    platformFeesCollected (crv w) + (n * price div 10 ^ 18) * PLATFORM_FEE div FEE_DENOMINATOR
       \<le> UINT256_MAX \<and>
    \<not> rejectsEth w s \<longrightarrow>
      (\<exists>w2. sell w s n = Inr w2 \<and>
         totalEthInvested (crv w2) =
           (if (n * price div 10 ^ 18) - (n * price div 10 ^ 18) * PLATFORM_FEE div FEE_DENOMINATOR
                 > totalEthInvested (crv w)
            then 0
            else totalEthInvested (crv w) -
                 ((n * price div 10 ^ 18) - (n * price div 10 ^ 18) * PLATFORM_FEE div FEE_DENOMINATOR))))"
proof -
  have 1: "\<exists>price. getCurrentPrice w = Inr price \<and>
        (let gross = n * price div 10 ^ 18;
             netReturn = gross - gross * PLATFORM_FEE div FEE_DENOMINATOR
         in totalEthInvested (crv w') =
              (if netReturn > totalEthInvested (crv w) then 0 else totalEthInvested (crv w) - netReturn) \<and>
            netReturn \<le> ethBalance w (curveAddr w) \<and>
            ethBalance w' (curveAddr w) = ethBalance w (curveAddr w) - netReturn \<and>
            ethBalance w' s = ethBalance w s + netReturn \<and>
            n \<le> balances (tok w) s \<and>
            balances (tok w') s = balances (tok w) s - n \<and>
            totalSupply (tok w') = unchecked_sub (totalSupply (tok w)) n \<and>
            (n \<le> totalSupply (tok w) \<and> totalSupply (tok w) \<le> UINT256_MAX \<longrightarrow>
               totalSupply (tok w') = totalSupply (tok w) - n) \<and>
            last (events w') = Sold s netReturn n (gross * PLATFORM_FEE div FEE_DENOMINATOR))"
    if h: "sell w s n = Inr w' \<and> s \<noteq> curveAddr w"
  proof -
    from h have sl: "sell w s n = Inr w'" and ne: "s \<noteq> curveAddr w" by simp_all
    from sellD[OF sl] obtain price w1 where
      t: "transferFrom w (curveAddr w) s (curveAddr w) n = Inr w1" and
      p: "getCurrentPrice w = Inr price" and
      e: "netOf (n * price div 10 ^ 18) \<le> ethBalance w (curveAddr w)" and
      c: "crv w' = (crv w)\<lparr>platformFeesCollected := platformFeesCollected (crv w) + feeOf (n * price div 10 ^ 18),
                          totalEthInvested :=
                            (if totalEthInvested (crv w) > netOf (n * price div 10 ^ 18)
                             then totalEthInvested (crv w) - netOf (n * price div 10 ^ 18) else 0)\<rparr>" and
      k: "tok w' = (tok w1)\<lparr>balances := (balances (tok w1))(curveAddr w := balances (tok w1) (curveAddr w) - n),
                          totalSupply := unchecked_sub (totalSupply (tok w)) n\<rparr>" and
      b: "ethBalance w' = ethBalance (move_eth w (curveAddr w) s (netOf (n * price div 10 ^ 18)))" and
      ev: "events w' = events w @ [Transfer s (curveAddr w) n, Transfer (curveAddr w) 0 n,
                      TokensBurned (curveAddr w) n,
                      Sold s (netOf (n * price div 10 ^ 18)) n (feeOf (n * price div 10 ^ 18))]"
      by blast
    note tf = transferFrom_fields[OF t]
    have n: "n \<le> balances (tok w) s" by (rule tf(14))
    have bal: "balances (tok w') s = balances (tok w) s - n"
      using ne by (simp add: k tf(15))
    have inv: "totalEthInvested (crv w') =
        (if netOf (n * price div 10 ^ 18) > totalEthInvested (crv w) then 0
         else totalEthInvested (crv w) - netOf (n * price div 10 ^ 18))"
      by (simp add: c)
    have eb: "ethBalance w' (curveAddr w) = ethBalance w (curveAddr w) - netOf (n * price div 10 ^ 18)"
      "ethBalance w' s = ethBalance w s + netOf (n * price div 10 ^ 18)"
      using ne by (simp_all add: b move_eth_def Let_def)
    have sup: "totalSupply (tok w') = unchecked_sub (totalSupply (tok w)) n"
      by (simp add: k)
    have sup': "totalSupply (tok w') = totalSupply (tok w) - n"
      if "n \<le> totalSupply (tok w) \<and> totalSupply (tok w) \<le> UINT256_MAX"
      using that by (simp add: sup unchecked_sub_exact)
    have lst: "last (events w') = Sold s (netOf (n * price div 10 ^ 18)) n (feeOf (n * price div 10 ^ 18))"
      by (simp add: ev)
    have "totalEthInvested (crv w') =
              (if netOf (n * price div 10 ^ 18) > totalEthInvested (crv w) then 0
               else totalEthInvested (crv w) - netOf (n * price div 10 ^ 18)) \<and>
            netOf (n * price div 10 ^ 18) \<le> ethBalance w (curveAddr w) \<and>
            ethBalance w' (curveAddr w) = ethBalance w (curveAddr w) - netOf (n * price div 10 ^ 18) \<and>
            ethBalance w' s = ethBalance w s + netOf (n * price div 10 ^ 18) \<and>
            n \<le> balances (tok w) s \<and>
            balances (tok w') s = balances (tok w) s - n \<and>
            totalSupply (tok w') = unchecked_sub (totalSupply (tok w)) n \<and>
            (n \<le> totalSupply (tok w) \<and> totalSupply (tok w) \<le> UINT256_MAX \<longrightarrow>
               totalSupply (tok w') = totalSupply (tok w) - n) \<and>
            last (events w') = Sold s (netOf (n * price div 10 ^ 18)) n (feeOf (n * price div 10 ^ 18))"
      using inv e eb n bal sup sup' lst by blast
    with p show ?thesis
      unfolding Let_def by blast
  qed
  have 2: "\<exists>w2. sell w s n = Inr w2 \<and>
         totalEthInvested (crv w2) =
           (if netOf (n * price div 10 ^ 18) > totalEthInvested (crv w) then 0
            else totalEthInvested (crv w) - netOf (n * price div 10 ^ 18))"
    if h: "0 < n \<and> \<not> hasGraduated (crv w) \<and>
      transferFrom w (curveAddr w) s (curveAddr w) n = Inr w1 \<and>
      n \<le> balances (tok w1) (curveAddr w) \<and>
      getCurrentPrice w = Inr price \<and> n * price \<le> UINT256_MAX \<and>
      (n * price div 10 ^ 18) * PLATFORM_FEE \<le> UINT256_MAX \<and>
      netOf (n * price div 10 ^ 18) \<le> ethBalance w (curveAddr w) \<and>
      platformFeesCollected (crv w) + feeOf (n * price div 10 ^ 18) \<le> UINT256_MAX \<and>
      \<not> rejectsEth w s"
  proof -
    from h have "\<exists>w2. sell w s n = Inr w2" by (intro sell_succeeds[of n w s w1 price]) simp_all
    then obtain w2 where s2: "sell w s n = Inr w2" by blast
    from sellD[OF s2] h have "totalEthInvested (crv w2) =
           (if netOf (n * price div 10 ^ 18) > totalEthInvested (crv w) then 0
            else totalEthInvested (crv w) - netOf (n * price div 10 ^ 18))"
      by auto
    with s2 show ?thesis by blast
  qed
  from 1 2 show ?thesis by blast
qed


theorem sell_effect_witness:
  "(\<exists>w2. sell w_bought 400 (10 ^ 21) = Inr w2 \<and>
     9925 * 10 ^ 13 \<le> totalEthInvested (crv w_bought) \<and>
     totalEthInvested (crv w2) = 9925 * 10 ^ 14 - 9925 * 10 ^ 13 \<and>
     ethBalance w2 600 = 10 ^ 18 - 9925 * 10 ^ 13 \<and>
     ethBalance w2 400 = 999 * 10 ^ 18 + 9925 * 10 ^ 13 \<and>
     balances (tok w2) 400 = 9925 * 10 ^ 18 - 10 ^ 21 \<and>
     totalSupply (tok w2) = 9925 * 10 ^ 18 - 10 ^ 21 \<and>
     last (events w2) = Sold 400 (9925 * 10 ^ 13) (10 ^ 21) (75 * 10 ^ 13)) \<and>
   (\<exists>w3. sell w_short 400 (1004 * 10 ^ 17) = Inr w3 \<and>
     totalEthInvested (crv w_short) < 99647 * 10 ^ 13 \<and>
     totalEthInvested (crv w3) = 0 \<and>
     ethBalance w3 600 = 10 ^ 18 - 99647 * 10 ^ 13 \<and>
     ethBalance w3 400 = 999 * 10 ^ 18 + 99647 * 10 ^ 13 \<and>
     balances (tok w3) 400 = 9925 * 10 ^ 18 - 1004 * 10 ^ 17 \<and>
     totalSupply (tok w3) = unchecked_sub (9925 * 10 ^ 16) (1004 * 10 ^ 17) \<and>
     last (events w3) = Sold 400 (99647 * 10 ^ 13) (1004 * 10 ^ 17) (753 * 10 ^ 13))"
proof -
  from w_bought_facts(4) obtain w2 where w2: "sell w_bought 400 (10 ^ 21) = Inr w2" by blast
  have A: "400 \<noteq> curveAddr w_bought" by (simp add: w_bought_facts)
  from sell_effect[where w=w_bought and s=400 and n="10 ^ 21" and w'=w2 and ?w1.0=w_bought and price=0]
    w2 A
  have ordinary: "sell w_bought 400 (10 ^ 21) = Inr w2 \<and>
     9925 * 10 ^ 13 \<le> totalEthInvested (crv w_bought) \<and>
     totalEthInvested (crv w2) = 9925 * 10 ^ 14 - 9925 * 10 ^ 13 \<and>
     ethBalance w2 600 = 10 ^ 18 - 9925 * 10 ^ 13 \<and>
     ethBalance w2 400 = 999 * 10 ^ 18 + 9925 * 10 ^ 13 \<and>
     balances (tok w2) 400 = 9925 * 10 ^ 18 - 10 ^ 21 \<and>
     totalSupply (tok w2) = 9925 * 10 ^ 18 - 10 ^ 21 \<and>
     last (events w2) = Sold 400 (9925 * 10 ^ 13) (10 ^ 21) (75 * 10 ^ 13)"
    by (simp add: w_bought_facts const_defs Let_def unchecked_sub_def)
  from w_short_facts(11) obtain w1 where
    t: "transferFrom w_short 600 400 600 (1004 * 10 ^ 17) = Inr w1"
    and h: "1004 * 10 ^ 17 \<le> balances (tok w1) 600" by blast
  from sell_effect[where w=w_short and s=400 and n="1004 * 10 ^ 17" and w'=w_short and ?w1.0=w1
      and price="10 ^ 16"] t h
  have "\<exists>w3. sell w_short 400 (1004 * 10 ^ 17) = Inr w3 \<and> totalEthInvested (crv w3) = 0"
    by (simp add: w_short_facts const_defs Let_def)
  then obtain w3 where w3: "sell w_short 400 (1004 * 10 ^ 17) = Inr w3" by blast
  from sell_effect[where w=w_short and s=400 and n="1004 * 10 ^ 17" and w'=w3 and ?w1.0=w1
      and price="10 ^ 16"] w3
  have floored: "sell w_short 400 (1004 * 10 ^ 17) = Inr w3 \<and>
     totalEthInvested (crv w_short) < 99647 * 10 ^ 13 \<and>
     totalEthInvested (crv w3) = 0 \<and>
     ethBalance w3 600 = 10 ^ 18 - 99647 * 10 ^ 13 \<and>
     ethBalance w3 400 = 999 * 10 ^ 18 + 99647 * 10 ^ 13 \<and>
     balances (tok w3) 400 = 9925 * 10 ^ 18 - 1004 * 10 ^ 17 \<and>
     totalSupply (tok w3) = unchecked_sub (9925 * 10 ^ 16) (1004 * 10 ^ 17) \<and>
     last (events w3) = Sold 400 (99647 * 10 ^ 13) (1004 * 10 ^ 17) (753 * 10 ^ 13)"
    by (simp add: w_short_facts const_defs Let_def)
  from ordinary floored show ?thesis by blast
qed

lemma transferFrom_error:
  assumes "transferFrom w sp a b v = Inl e"
  shows "\<exists>name. e = CustomError name"
  using assms
  by (auto simp: transferFrom_def bnd_def ERC20_spendAllowance_def ERC20_approve_def ERC20_transfer_def
      ERC20_update_def Let_def split: sum.splits if_splits)

lemma transferFrom_insufficient:
  assumes "balances (tok w) a < v"
  shows "\<exists>e. transferFrom w sp a b v = Inl e"
proof (cases "transferFrom w sp a b v")
  case (Inl e)
  then show ?thesis by blast
next
  case (Inr w1)
  from transferFrom_fields(14)[OF this] assms show ?thesis by simp
qed

text \<open>
  Claim C6. When \<^verbatim>\<open>sell\<close> reaches the token transfer (the amount is positive and the curve has
  not graduated) and \<^verbatim>\<open>transferFrom\<close> fails, \<^verbatim>\<open>sell\<close> fails with the error of the transfer,
  which is one of the token's ERC20 errors, and the transaction leaves the world as it was,
  so \<^verbatim>\<open>totalEthInvested\<close>, \<^verbatim>\<open>platformFeesCollected\<close> and the total supply are unchanged. The
  transfer fails whenever the amount exceeds the seller's balance. Every failing transaction
  leaves the world as it was.
\<close>

theorem sell_transfer_failure:
  "(0 < n \<and> \<not> hasGraduated (crv w) \<and>
    transferFrom w (curveAddr w) s (curveAddr w) n = Inl e \<longrightarrow>
      sell w s n = Inl e \<and> (\<exists>name. e = CustomError name) \<and> exec w (s, now, Sell n) = w) \<and>
   (balances (tok w) s < n \<longrightarrow> (\<exists>e'. transferFrom w (curveAddr w) s (curveAddr w) n = Inl e')) \<and>
   (step w s now c = Inl e \<longrightarrow> exec w (s, now, c) = w)"
proof -
  have 1: "sell w s n = Inl e \<and> (\<exists>name. e = CustomError name) \<and> exec w (s, now, Sell n) = w"
    if h: "0 < n \<and> \<not> hasGraduated (crv w) \<and> transferFrom w (curveAddr w) s (curveAddr w) n = Inl e"
  proof -
    from h have "sell w s n = Inl e" by (simp add: sell_def require_def)
    moreover from h have "\<exists>name. e = CustomError name" by (blast dest: transferFrom_error)
    ultimately show ?thesis by (simp add: exec_def)
  qed
  have 3: "exec w (s, now, c) = w" if "step w s now c = Inl e"
    using that by (simp add: exec_def)
  from 1 3 transferFrom_insufficient[of w s n "curveAddr w" "curveAddr w"] show ?thesis by blast
qed


theorem sell_transfer_failure_witness:
  "0 < (10 ^ 22 :: nat) \<and> \<not> hasGraduated (crv w_bought) \<and>
   balances (tok w_bought) 400 < 10 ^ 22 \<and>
   transferFrom w_bought 600 400 600 (10 ^ 22) = Inl (CustomError ''ERC20InsufficientAllowance'') \<and>
   sell w_bought 400 (10 ^ 22) = Inl (CustomError ''ERC20InsufficientAllowance'') \<and>
   step w_bought 400 2000 (Sell (10 ^ 22)) = Inl (CustomError ''ERC20InsufficientAllowance'') \<and>
   exec w_bought (400, 2000, Sell (10 ^ 22)) = w_bought"
  using sell_transfer_failure[where w=w_bought and s=400 and n="10 ^ 22" and now=2000
      and e="CustomError ''ERC20InsufficientAllowance''" and c="Sell (10 ^ 22)"]
    w_bought_facts(5,6,10,11)
  by simp


section \<open>Graduation\<close>

lemma burn_fraction_le: "x * BURN_PERCENTAGE div FEE_DENOMINATOR \<le> x"
  by (simp add: BURN_PERCENTAGE_def FEE_DENOMINATOR_def)

lemma buy_graduating_supply:
  assumes "buy w s v = Inr w'" "GRADUATION_THRESHOLD \<le> totalEthInvested (crv w')"
  shows "\<exists>price. getCurrentPrice w = Inr price \<and>
         (let supply = totalSupply (tok w) + netOf v * 10 ^ 18 div price;
              burnAmount = supply * BURN_PERCENTAGE div FEE_DENOMINATOR
          in totalSupply (tok w') = supply - burnAmount \<and>
             (s \<noteq> curveAddr w \<longrightarrow> burnAmount \<le> balances (tok w) (curveAddr w) \<and>
                balances (tok w') (curveAddr w) = balances (tok w) (curveAddr w) - burnAmount) \<and>
             (\<forall>a. a \<noteq> curveAddr w \<and> a \<noteq> s \<longrightarrow> balances (tok w') a = balances (tok w) a) \<and>
             Graduated (totalEthInvested (crv w')) (ethBalance w' (curveAddr w)) \<in> set (events w'))"
  using assms(1)
proof (cases rule: buy_cases)
  case (below price)
  with assms(2) buy_crv(2)[OF assms(1)] show ?thesis by simp
next
  case (graduating price w4)
  note G = executeGraduation_fields[OF graduating(6)]
  let ?S = "totalSupply (tok w) + netOf v * 10 ^ 18 div price"
  let ?b = "?S * BURN_PERCENTAGE div FEE_DENOMINATOR"
  have le: "?b \<le> ?S" by (rule burn_fraction_le)
  have mx: "?S \<le> UINT256_MAX" by (rule graduating(4))
  have ex: "unchecked_sub ?S ?b = ?S - ?b" by (rule unchecked_sub_exact[OF le mx])
  have ts: "totalSupply (tok w4) = ?S - ?b"
    using ex by (simp add: G(8))
  have b4: "balances (tok w4) = (balances (tok (minted w s v price)))
      (curveAddr w := balances (tok (minted w s v price)) (curveAddr w) - ?b)"
    using G(9) by simp
  have b7: "?b \<le> balances (tok (minted w s v price)) (curveAddr w)"
    using G(7) by simp
  have 1: "totalSupply (tok w') = ?S - ?b"
    by (simp add: graduating(7) ts)
  have 2: "?b \<le> balances (tok w) (curveAddr w) \<and>
      balances (tok w') (curveAddr w) = balances (tok w) (curveAddr w) - ?b"
    if "s \<noteq> curveAddr w"
    using that b7 by (simp add: graduating(7) b4)
  have 3: "balances (tok w') a = balances (tok w) a" if "a \<noteq> curveAddr w \<and> a \<noteq> s" for a
    using that by (simp add: graduating(7) b4)
  have 4: "Graduated (totalEthInvested (crv w')) (ethBalance w' (curveAddr w)) \<in> set (events w')"
    by (simp add: graduating(7) G)
  from 1 2 3 4 graduating(1) show ?thesis
    unfolding Let_def by blast
qed

lemma buy_graduated_fails:
  assumes "hasGraduated (crv w)" shows "\<exists>e. buy w s v = Inl e"
proof (cases "buy w s v")
  case (Inl e)
  then show ?thesis by blast
next
  case (Inr w')
  from buyD[OF this] assms show ?thesis by blast
qed

lemma sell_graduated_fails:
  assumes "hasGraduated (crv w)" shows "\<exists>e. sell w s n = Inl e"
proof (cases "sell w s n")
  case (Inl e)
  then show ?thesis by blast
next
  case (Inr w')
  from sellD[OF this] assms show ?thesis by blast
qed

lemma createToken_fresh:
  assumes "createToken f ch d v0 tName tSymbol = Inr w0"
  shows "\<not> hasGraduated (crv w0)" "filter is_Graduated (events w0) = []"
    "owner (tok w0) = factoryAddr f" "factory (crv w0) = factoryAddr f"
    "curveAddr w0 = newCurveAddr ch" "ERC20Token.deployer (tok w0) = d" "d \<noteq> 0" "factoryAddr f \<noteq> 0"
  using assms
  by (auto simp: createToken_def bnd_eq_Inr ERC20Token_constructor_def BondingCurve_constructor_def
      call_value_snd Let_def split: if_splits)

lemma w_pregrad_facts:
  "\<exists>w1. buy w_pregrad 400 (2 * ether) = Inr w1 \<and> totalEthInvested (crv w1) = 1002425 * 10 ^ 14"
  "getCurrentPrice w_pregrad = Inr (10 ^ 14)" "totalSupply (tok w_pregrad) = 982575 * 10 ^ 18"
  "balances (tok w_pregrad) 600 = 2 * 10 ^ 23" "curveAddr w_pregrad = 600"
  "filter is_Graduated (events w_pregrad) = []"
  by (simp_all add: w_pregrad_def w_live_def w_created_def eval_defs const_defs)

lemma w_history:
  "run w_created [(300, 1000, TransferTokenOwnership 600), (400, 2000, Buy (99 * ether)),
      (400, 2000, Erc20Transfer 600 (2 * 10 ^ 23)), (400, 2000, Buy (2 * ether))] = w_graduated"
  by (simp add: w_graduated_def w_pregrad_def w_live_def run_def)

text \<open>
  Claim C3. A successful \<^verbatim>\<open>buy\<close> that leaves \<^verbatim>\<open>totalEthInvested\<close> at or above
  \<^verbatim>\<open>GRADUATION_THRESHOLD\<close> has set \<^verbatim>\<open>hasGraduated\<close> and \<^verbatim>\<open>liquidityAdded\<close>, has emitted exactly one
  \<^verbatim>\<open>Graduated\<close> event, and has burned \<^verbatim>\<open>BURN_PERCENTAGE / FEE_DENOMINATOR\<close> (one tenth, truncated)
  of the total supply as it was after the mint: the supply drops by that amount, it is taken
  from the curve's own balance, and the balance of no other holder changes. From a graduated
  state on, every sequence of transactions leaves \<^verbatim>\<open>hasGraduated\<close> set and adds no
  \<^verbatim>\<open>Graduated\<close> event, and \<^verbatim>\<open>buy\<close> and \<^verbatim>\<open>sell\<close>, the only callers of the graduation code, fail.
  In every state reached from \<^verbatim>\<open>createToken\<close> the log holds one \<^verbatim>\<open>Graduated\<close> event if the curve
  has graduated and none otherwise.
\<close>

theorem graduation_once:
  "(buy w s v = Inr w' \<and> GRADUATION_THRESHOLD \<le> totalEthInvested (crv w') \<longrightarrow>
      hasGraduated (crv w') \<and> liquidityAdded (crv w') \<and>
      length (filter is_Graduated (events w')) = length (filter is_Graduated (events w)) + 1 \<and>
      (\<exists>price. getCurrentPrice w = Inr price \<and>
         (let supply = totalSupply (tok w) + (v - v * PLATFORM_FEE div FEE_DENOMINATOR) * 10 ^ 18 div price;
              burnAmount = supply * BURN_PERCENTAGE div FEE_DENOMINATOR
          in totalSupply (tok w') = supply - burnAmount \<and>
             (s \<noteq> curveAddr w \<longrightarrow> burnAmount \<le> balances (tok w) (curveAddr w) \<and>
                balances (tok w') (curveAddr w) = balances (tok w) (curveAddr w) - burnAmount) \<and>
             (\<forall>a. a \<noteq> curveAddr w \<and> a \<noteq> s \<longrightarrow> balances (tok w') a = balances (tok w) a) \<and>
             Graduated (totalEthInvested (crv w')) (ethBalance w' (curveAddr w)) \<in> set (events w')))) \<and>
   (hasGraduated (crv w) \<longrightarrow>
      hasGraduated (crv (run w txs)) \<and>
      length (filter is_Graduated (events (run w txs))) = length (filter is_Graduated (events w)) \<and>
      (\<exists>e. buy (run w txs) s v = Inl e) \<and> (\<exists>e. sell (run w txs) s n = Inl e)) \<and>
   (createToken f ch d v0 tName tSymbol = Inr w0 \<longrightarrow>
      length (filter is_Graduated (events (run w0 txs))) =
        (if hasGraduated (crv (run w0 txs)) then 1 else 0)) \<and>
   BURN_PERCENTAGE * 10 = FEE_DENOMINATOR"
proof -
  have 1: "hasGraduated (crv w') \<and> liquidityAdded (crv w') \<and>
      length (filter is_Graduated (events w')) = length (filter is_Graduated (events w)) + 1"
    if h: "buy w s v = Inr w' \<and> GRADUATION_THRESHOLD \<le> totalEthInvested (crv w')"
  proof -
    from h have b: "buy w s v = Inr w'" by simp
    from buyD[OF b] have g: "\<not> hasGraduated (crv w)" by blast
    from h buy_crv[OF b] have g': "hasGraduated (crv w')" "liquidityAdded (crv w')" by simp_all
    from frame_buy[OF b] g g' show ?thesis by (simp add: frame_def)
  qed
  have 2: "hasGraduated (crv (run w txs)) \<and>
      length (filter is_Graduated (events (run w txs))) = length (filter is_Graduated (events w)) \<and>
      (\<exists>e. buy (run w txs) s v = Inl e) \<and> (\<exists>e. sell (run w txs) s n = Inl e)"
    if h: "hasGraduated (crv w)"
  proof -
    from run_frame[of w txs] h have g: "hasGraduated (crv (run w txs))"
      and c: "length (filter is_Graduated (events (run w txs))) = length (filter is_Graduated (events w))"
      by (simp_all add: frame_def)
    from g c buy_graduated_fails[OF g] sell_graduated_fails[OF g] show ?thesis by blast
  qed
  have 3: "length (filter is_Graduated (events (run w0 txs))) =
        (if hasGraduated (crv (run w0 txs)) then 1 else 0)"
    if h: "createToken f ch d v0 tName tSymbol = Inr w0"
    using run_frame[of w0 txs] createToken_fresh(1,2)[OF h] by (simp add: frame_def)
  have 4: "BURN_PERCENTAGE * 10 = FEE_DENOMINATOR"
    by (simp add: BURN_PERCENTAGE_def FEE_DENOMINATOR_def)
  from 1 2 3 4 buy_graduating_supply[of w s v w'] show ?thesis by blast
qed

theorem graduation_once_witness:
  "(\<exists>w1. buy w_pregrad 400 (2 * ether) = Inr w1 \<and>
      GRADUATION_THRESHOLD \<le> totalEthInvested (crv w1) \<and>
      hasGraduated (crv w1) \<and> liquidityAdded (crv w1) \<and>
      length (filter is_Graduated (events w1)) = 1 \<and>
      totalSupply (tok w1) = 1002425 * 10 ^ 18 - 1002425 * 10 ^ 17 \<and>
      balances (tok w1) 600 = 2 * 10 ^ 23 - 1002425 * 10 ^ 17 \<and>
      balances (tok w1) 300 = balances (tok w_pregrad) 300) \<and>
   hasGraduated (crv w_graduated) \<and>
   hasGraduated (crv (run w_graduated [(400, 3000, Buy ether), (400, 3000, Burn 5)])) \<and>
   (\<exists>e. buy (run w_graduated [(400, 3000, Buy ether), (400, 3000, Burn 5)]) 400 ether = Inl e) \<and>
   length (filter is_Graduated (events w_graduated)) = 1"
proof -
  from w_pregrad_facts(1) obtain w1 where w1: "buy w_pregrad 400 (2 * ether) = Inr w1"
    and i: "totalEthInvested (crv w1) = 1002425 * 10 ^ 14" by blast
  from i have th: "GRADUATION_THRESHOLD \<le> totalEthInvested (crv w1)" by (simp add: const_defs)
  from graduation_once[where w=w_pregrad and s=400 and v="2 * ether" and w'=w1 and n=1
      and txs="[]" and ?w0.0=w_created and f=factory0
      and ch=chain0 and d=300 and ?v0.0=0 and tName="''Token''" and tSymbol="''TKN''"] w1 th
  have a: "hasGraduated (crv w1) \<and> liquidityAdded (crv w1) \<and>
      length (filter is_Graduated (events w1)) = 1 \<and>
      totalSupply (tok w1) = 1002425 * 10 ^ 18 - 1002425 * 10 ^ 17 \<and>
      balances (tok w1) 600 = 2 * 10 ^ 23 - 1002425 * 10 ^ 17 \<and>
      (\<forall>a. a \<noteq> 600 \<and> a \<noteq> 400 \<longrightarrow> balances (tok w1) a = balances (tok w_pregrad) a)"
    by (simp add: w_pregrad_facts const_defs Let_def)
  then have a': "balances (tok w1) 300 = balances (tok w_pregrad) 300" by simp
  from graduation_once[where w=w_graduated and s=400 and v=ether and w'=w_graduated and n=1
      and txs="[(400, 3000, Buy ether), (400, 3000, Burn 5)]" and ?w0.0=w_created and f=factory0
      and ch=chain0 and d=300 and ?v0.0=0 and tName="''Token''" and tSymbol="''TKN''"]
    w_graduated_facts
  have b: "hasGraduated (crv (run w_graduated [(400, 3000, Buy ether), (400, 3000, Burn 5)])) \<and>
   (\<exists>e. buy (run w_graduated [(400, 3000, Buy ether), (400, 3000, Burn 5)]) 400 ether = Inl e)"
    by simp
  from graduation_once[where w=w_created and s=400 and v=ether and w'=w_created and n=1
      and ?w0.0=w_created and f=factory0 and ch=chain0 and d=300
      and ?v0.0=TOKEN_CREATION_FEE and tName="''Token''" and tSymbol="''TKN''"
      and txs="[(300, 1000, TransferTokenOwnership 600), (400, 2000, Buy (99 * ether)),
      (400, 2000, Erc20Transfer 600 (2 * 10 ^ 23)), (400, 2000, Buy (2 * ether))]"]
    createToken_w_created w_history w_graduated_facts
  have c: "length (filter is_Graduated (events w_graduated)) = 1"
    by simp
  from w1 th a a' b c w_graduated_facts show ?thesis by blast
qed

section \<open>Token ownership of a new pair\<close>

lemma executeGraduation_owner:
  "executeGraduation w = Inr w' \<Longrightarrow> owner (tok w') = owner (tok w)"
  by (auto simp: executeGraduation_Inr Let_def split: if_splits)

lemma buy_owner:
  assumes "buy w s v = Inr w'" shows "owner (tok w') = owner (tok w)"
  using assms
proof (cases rule: buy_cases)
  case (below price)
  then show ?thesis by simp
next
  case (graduating price w4)
  from executeGraduation_owner[OF graduating(6)] graduating(7) show ?thesis by simp
qed

lemma sell_owner:
  assumes "sell w s n = Inr w'" shows "owner (tok w') = owner (tok w)"
proof -
  from sellD[OF assms] obtain w1 where
    t: "transferFrom w (curveAddr w) s (curveAddr w) n = Inr w1" and
    k: "tok w' = (tok w1)\<lparr>balances := (balances (tok w1))(curveAddr w := balances (tok w1) (curveAddr w) - n),
                        totalSupply := unchecked_sub (totalSupply (tok w)) n\<rparr>"
    by blast
  from transferFrom_fields(7)[OF t] k show ?thesis by simp
qed

lemma claimVestedTokens_owner:
  assumes "claimVestedTokens w s now = Inr w'" shows "owner (tok w') = owner (tok w)"
proof -
  from assms obtain nv where nv: "calculateVestedAmount (tok w) now = Inr nv"
    by (auto simp: claimVestedTokens_def bnd_eq_Inr)
  from assms show ?thesis unfolding claimVestedTokens_eq[OF nv]
    by (auto split: if_splits)
qed

lemma step_owner:
  assumes "step w s now c = Inr w'" "s \<noteq> owner (tok w)" "\<forall>a. c \<noteq> TransferTokenOwnership a"
  shows "owner (tok w') = owner (tok w)"
proof (cases c)
  case (Buy v)
  with assms(1) show ?thesis by (simp add: buy_owner)
next
  case (Sell n)
  with assms(1) show ?thesis by (simp add: sell_owner)
next
  case ClaimVestedTokens
  with assms(1) show ?thesis by (simp add: claimVestedTokens_owner)
next
  case (Erc20TransferFrom a b v)
  with assms(1) show ?thesis by (simp add: transferFrom_fields(7))
next
  case (Erc20Transfer b v)
  with assms(1) have "ERC20_transfer w s b v = Inr w'" by (simp add: transfer_def)
  from ERC20_transfer_fields[OF this] show ?thesis by simp
next
  case (TransferTokenOwnership a)
  with assms(3) show ?thesis by simp
qed (use assms in \<open>auto simp: withdrawPlatformFees_def initialize_def msg_value_Inr call_value_snd
       mint_Inr burn_Inr transferOwnership_def setMilestonesReached_def burnUnvestedTokens_def
       approve_def ERC20_approve_def bnd_eq_Inr Let_def split: if_splits\<close>)

lemma exec_owner:
  assumes "fst tx \<noteq> owner (tok w)" "\<forall>a. snd (snd tx) \<noteq> TransferTokenOwnership a"
  shows "owner (tok (exec w tx)) = owner (tok w)"
proof -
  obtain s now c where tx: "tx = (s, now, c)" by (cases tx)
  show ?thesis
  proof (cases "step w s now c")
    case (Inl e)
    then show ?thesis by (simp add: exec_def tx)
  next
    case (Inr w')
    with assms tx have "owner (tok w') = owner (tok w)" by (intro step_owner[of w s now c]) simp_all
    with Inr show ?thesis by (simp add: exec_def tx)
  qed
qed

lemma run_owner:
  assumes "\<forall>tx \<in> set txs. fst tx \<noteq> owner (tok w) \<and> (\<forall>a. snd (snd tx) \<noteq> TransferTokenOwnership a)"
  shows "owner (tok (run w txs)) = owner (tok w)"
  using assms
proof (induction txs arbitrary: w)
  case Nil
  show ?case by (simp add: run_def)
next
  case (Cons tx txs)
  from Cons.prems have o: "owner (tok (exec w tx)) = owner (tok w)"
    by (intro exec_owner) simp_all
  with Cons.prems have "\<forall>t \<in> set txs. fst t \<noteq> owner (tok (exec w tx)) \<and>
      (\<forall>a. snd (snd t) \<noteq> TransferTokenOwnership a)" by simp
  from Cons.IH[OF this] o show ?case by (simp add: run_Cons)
qed

lemma buy_needs_ownership:
  assumes "curveAddr w \<noteq> owner (tok w)" shows "\<exists>e. buy w s v = Inl e"
proof (cases "buy w s v")
  case (Inl e)
  then show ?thesis by blast
next
  case (Inr w')
  from buyD[OF this] assms show ?thesis by blast
qed

text \<open>
  Claim C2. \<^verbatim>\<open>createToken\<close> makes the factory, not the curve, the owner of the token, and
  \<^verbatim>\<open>mint\<close> fails with "Only owner" for every other caller. As long as no account acts with the
  factory's address and \<^verbatim>\<open>transferTokenOwnership\<close> has not been called, the factory stays the
  owner and every \<^verbatim>\<open>buy\<close> fails, whatever the sender and the value; the deployer's call
  \<^verbatim>\<open>transferTokenOwnership(token, curve)\<close> then succeeds and makes the curve the owner. The
  factory and the curve are distinct contracts and the curve is not at the zero address.
\<close>

theorem fresh_pair_cannot_buy:
  assumes "createToken f ch d v0 tName tSymbol = Inr w0"
    and "factoryAddr f \<noteq> newCurveAddr ch" and "newCurveAddr ch \<noteq> 0"
    and "\<forall>tx \<in> set txs. fst tx \<noteq> factoryAddr f \<and> (\<forall>a. snd (snd tx) \<noteq> TransferTokenOwnership a)"
  shows "owner (tok w0) = factoryAddr f \<and> owner (tok (run w0 txs)) = factoryAddr f \<and>
         curveAddr (run w0 txs) = newCurveAddr ch \<and>
         (\<forall>s to amount. s \<noteq> owner (tok (run w0 txs)) \<longrightarrow>
            mint (run w0 txs) s to amount = Inl (Revert ''Only owner'')) \<and>
         (\<forall>s val. \<exists>e. buy (run w0 txs) s val = Inl e) \<and>
         (\<exists>w1. transferTokenOwnership (run w0 txs) d (newCurveAddr ch) = Inr w1 \<and>
               owner (tok w1) = curveAddr w1)"
proof -
  note F = createToken_fresh[OF assms(1)]
  from assms(4) F(3) have "\<forall>tx \<in> set txs. fst tx \<noteq> owner (tok w0) \<and>
      (\<forall>a. snd (snd tx) \<noteq> TransferTokenOwnership a)" by simp
  from run_owner[OF this] F(3) have o: "owner (tok (run w0 txs)) = factoryAddr f" by simp
  from run_frame[of w0 txs] F have fr: "curveAddr (run w0 txs) = newCurveAddr ch"
    "factory (crv (run w0 txs)) = factoryAddr f" "ERC20Token.deployer (tok (run w0 txs)) = d"
    by (simp_all add: frame_def)
  have m: "mint (run w0 txs) s to amount = Inl (Revert ''Only owner'')"
    if "s \<noteq> owner (tok (run w0 txs))" for s to amount
    using that by (simp add: mint_def require_def)
  from o fr(1) assms(2) have "curveAddr (run w0 txs) \<noteq> owner (tok (run w0 txs))" by simp
  then have b: "\<exists>e. buy (run w0 txs) s val = Inl e" for s val by (rule buy_needs_ownership)
  have t: "transferTokenOwnership (run w0 txs) d (newCurveAddr ch) =
      Inr ((run w0 txs)\<lparr>tok := (tok (run w0 txs))\<lparr>owner := newCurveAddr ch\<rparr>\<rparr>)"
    using o fr assms(3) by (simp add: transferTokenOwnership_def transferOwnership_def require_def)
  have "\<exists>w1. transferTokenOwnership (run w0 txs) d (newCurveAddr ch) = Inr w1 \<and>
               owner (tok w1) = curveAddr w1"
    unfolding t using fr(1) by simp
  with F(3) o fr(1) m b show ?thesis by blast
qed

theorem fresh_pair_cannot_buy_witness:
  "createToken factory0 chain0 300 TOKEN_CREATION_FEE ''Token'' ''TKN'' = Inr w_created \<and>
   owner (tok (run w_created [(400, 2000, Buy ether), (300, 2000, ClaimVestedTokens),
       (400, 2000, TransferOwnership 400)])) = 100 \<and>
   (\<exists>e. buy (run w_created [(400, 2000, Buy ether), (300, 2000, ClaimVestedTokens),
       (400, 2000, TransferOwnership 400)]) 400 ether = Inl e) \<and>
   mint (run w_created [(400, 2000, Buy ether), (300, 2000, ClaimVestedTokens),
       (400, 2000, TransferOwnership 400)]) 600 400 1 = Inl (Revert ''Only owner'') \<and>
   (\<exists>w1. transferTokenOwnership (run w_created [(400, 2000, Buy ether), (300, 2000, ClaimVestedTokens),
       (400, 2000, TransferOwnership 400)]) 300 600 = Inr w1 \<and> owner (tok w1) = curveAddr w1)"
proof -
  have "factoryAddr factory0 \<noteq> newCurveAddr chain0" "newCurveAddr chain0 \<noteq> 0"
    "\<forall>tx \<in> set [(400, 2000, Buy ether), (300, 2000, ClaimVestedTokens),
       (400::nat, 2000::nat, TransferOwnership 400)].
       fst tx \<noteq> factoryAddr factory0 \<and> (\<forall>a. snd (snd tx) \<noteq> TransferTokenOwnership a)"
    by (simp_all add: factory0_def chain0_def)
  from fresh_pair_cannot_buy[OF createToken_w_created this] createToken_w_created
  show ?thesis by (simp add: factory0_def chain0_def)
qed


end
